theory Spec2Isabelle
  imports Complex_Main
begin

section \<open>JavaScript values\<close>

text \<open>
  The handlers of \<^verbatim>\<open>src/index.js\<close> compute on parsed JSON: request bodies, query
  strings and the bodies of upstream responses. A number is an IEEE double, of which only
  the classification matters here (\<open>NaN\<close>, the two infinities, or a finite value; both
  zeros are \<open>Finite 0\<close>). A string is its sequence of code units; a \<open>char\<close> stands for
  a code unit below 256. An object is the list of its own properties in enumeration
  order, each key once.
\<close>

datatype jsnum = NaN | PosInfinity | NegInfinity | Finite rat

datatype jsval =
    JUndefined
  | JNull
  | JBool bool
  | JNum jsnum
  | JStr string
  | JArr "jsval list"
  | JObj "(string \<times> jsval) list"

text \<open>
  What a \<^verbatim>\<open>throw\<close> carries: a \<open>TypeError\<close> of the language itself (reading a property
  of \<^verbatim>\<open>undefined\<close>, calling what is not a function), or whatever a library call
  rejected with (\<open>Thrown\<close>, with the error's payload, e.g. an upstream error body).
\<close>

datatype exn = TypeError | Thrown jsval

text \<open>
  The parts of the language runtime whose text is not in the repository and whose exact
  output no handler inspects: the printing and parsing of doubles.
\<close>

record runtime =
  NumberToString :: "jsnum \<Rightarrow> string"
  StringToNumber :: "string \<Rightarrow> jsnum"
  toLocaleString :: "jsnum \<Rightarrow> string"

subsection \<open>Computations that may throw\<close>

definition bindE :: "exn + 'a \<Rightarrow> ('a \<Rightarrow> exn + 'b) \<Rightarrow> exn + 'b" where
  "bindE r f = (case r of Inl e \<Rightarrow> Inl e | Inr x \<Rightarrow> f x)"

fun sequence :: "(exn + 'a) list \<Rightarrow> exn + 'a list" where
  "sequence [] = Inr []"
| "sequence (Inl e # rs) = Inl e"
| "sequence (Inr x # rs) = (case sequence rs of Inl e \<Rightarrow> Inl e | Inr xs \<Rightarrow> Inr (x # xs))"

subsection \<open>Truthiness, property reads, conversions\<close>

fun truthy :: "jsval \<Rightarrow> bool" where
  "truthy JUndefined = False"
| "truthy JNull = False"
| "truthy (JBool b) = b"
| "truthy (JNum n) = (n \<noteq> NaN \<and> n \<noteq> Finite 0)"
| "truthy (JStr s) = (s \<noteq> [])"
| "truthy (JArr xs) = True"
| "truthy (JObj kvs) = True"

definition nullish :: "jsval \<Rightarrow> bool" where
  "nullish v = (v = JUndefined \<or> v = JNull)"

text \<open>\<open>a || b\<close>, for a right operand that cannot throw.\<close>

definition or_else :: "jsval \<Rightarrow> jsval \<Rightarrow> jsval" where
  "or_else a b = (if truthy a then a else b)"

text \<open>The decimal digits of an array index, as \<^verbatim>\<open>`${index}`\<close> prints it.\<close>

fun dec :: "nat \<Rightarrow> string" where
  "dec n = (if n < 10 then [''0123456789'' ! n]
            else dec (n div 10) @ [''0123456789'' ! (n mod 10)])"

declare dec.simps [simp del]

text \<open>
  \<open>read_prop v k\<close> reads property \<open>k\<close> of a value that is neither \<^verbatim>\<open>undefined\<close> nor
  \<^verbatim>\<open>null\<close>: an own property of an object, \<^verbatim>\<open>length\<close> or an element of an array or a
  string, \<^verbatim>\<open>undefined\<close> otherwise (methods of the prototypes are reached through the
  \<open>call_\<close> functions below, not read as properties).
\<close>

fun read_prop :: "jsval \<Rightarrow> string \<Rightarrow> jsval" where
  "read_prop (JObj kvs) k = (case map_of kvs k of None \<Rightarrow> JUndefined | Some v \<Rightarrow> v)"
| "read_prop (JArr xs) k =
     (if k = ''length'' then JNum (Finite (of_nat (length xs)))
      else case find (\<lambda>i. dec i = k) [0..<length xs] of
             None \<Rightarrow> JUndefined | Some i \<Rightarrow> xs ! i)"
| "read_prop (JStr s) k =
     (if k = ''length'' then JNum (Finite (of_nat (length s)))
      else case find (\<lambda>i. dec i = k) [0..<length s] of
             None \<Rightarrow> JUndefined | Some i \<Rightarrow> JStr [s ! i])"
| "read_prop v k = JUndefined"

text \<open>\<open>v.k\<close> throws on \<^verbatim>\<open>undefined\<close> and \<^verbatim>\<open>null\<close>; \<open>v?.k\<close> yields \<^verbatim>\<open>undefined\<close> there.\<close>

definition get :: "jsval \<Rightarrow> string \<Rightarrow> exn + jsval" where
  "get v k = (if nullish v then Inl TypeError else Inr (read_prop v k))"

definition oget :: "jsval \<Rightarrow> string \<Rightarrow> jsval" where
  "oget v k = (if nullish v then JUndefined else read_prop v k)"

fun join_strings :: "string \<Rightarrow> string list \<Rightarrow> string" where
  "join_strings sep [] = []"
| "join_strings sep [s] = s"
| "join_strings sep (s # t # ss) = s @ sep @ join_strings sep (t # ss)"

text \<open>
  \<open>to_str\<close> is the conversion a template literal applies. An array prints as its
  elements joined by commas, \<^verbatim>\<open>undefined\<close> and \<^verbatim>\<open>null\<close> elements as the empty string.
  A parsed object prints as \<^verbatim>\<open>[object Object]\<close>, unless an own property
  \<^verbatim>\<open>toString\<close> (data, so not callable) hides the inherited method: then the conversion
  throws.
\<close>

fun to_str :: "runtime \<Rightarrow> jsval \<Rightarrow> exn + string" where
  "to_str rt JUndefined = Inr ''undefined''"
| "to_str rt JNull = Inr ''null''"
| "to_str rt (JBool b) = Inr (if b then ''true'' else ''false'')"
| "to_str rt (JNum n) = Inr (NumberToString rt n)"
| "to_str rt (JStr s) = Inr s"
| "to_str rt (JArr xs) =
     (case sequence (map (\<lambda>x. if x = JUndefined \<or> x = JNull then Inr [] else to_str rt x) xs) of
        Inl e \<Rightarrow> Inl e
      | Inr ss \<Rightarrow> Inr (join_strings '','' ss))"
| "to_str rt (JObj kvs) =
     (if ''toString'' \<in> set (map fst kvs) then Inl TypeError else Inr ''[object Object]'')"

text \<open>\<open>Number(v)\<close>.\<close>

fun Number :: "runtime \<Rightarrow> jsval \<Rightarrow> exn + jsnum" where
  "Number rt JUndefined = Inr NaN"
| "Number rt JNull = Inr (Finite 0)"
| "Number rt (JBool b) = Inr (Finite (if b then 1 else 0))"
| "Number rt (JNum n) = Inr n"
| "Number rt (JStr s) = Inr (StringToNumber rt s)"
| "Number rt (JArr xs) =
     (case to_str rt (JArr xs) of Inl e \<Rightarrow> Inl e | Inr s \<Rightarrow> Inr (StringToNumber rt s))"
| "Number rt (JObj kvs) =
     (if ''toString'' \<in> set (map fst kvs) then Inl TypeError else Inr NaN)"

subsection \<open>Method calls\<close>

text \<open>
  \<open>x.map(f)\<close>, \<open>x.slice(0, n)\<close>, \<open>x.join(sep)\<close> and \<open>x.trim()\<close>: on a receiver
  without the method the call throws. Parsed JSON holds no functions, so only arrays
  have \<^verbatim>\<open>map\<close> and \<^verbatim>\<open>join\<close>, arrays and strings \<^verbatim>\<open>slice\<close>, strings \<^verbatim>\<open>trim\<close>.
  The callback of \<^verbatim>\<open>map\<close> receives the element and its index.
\<close>

fun call_map :: "jsval \<Rightarrow> (jsval \<Rightarrow> nat \<Rightarrow> exn + jsval) \<Rightarrow> exn + jsval" where
  "call_map (JArr xs) f =
     (case sequence (map (\<lambda>(x, i). f x i) (zip xs [0..<length xs])) of
        Inl e \<Rightarrow> Inl e | Inr ys \<Rightarrow> Inr (JArr ys))"
| "call_map v f = Inl TypeError"

fun call_slice :: "jsval \<Rightarrow> nat \<Rightarrow> exn + jsval" where
  "call_slice (JArr xs) n = Inr (JArr (take n xs))"
| "call_slice (JStr s) n = Inr (JStr (take n s))"
| "call_slice v n = Inl TypeError"

fun call_join :: "runtime \<Rightarrow> jsval \<Rightarrow> string \<Rightarrow> exn + jsval" where
  "call_join rt (JArr xs) sep =
     (case sequence (map (\<lambda>x. if x = JUndefined \<or> x = JNull then Inr [] else to_str rt x) xs) of
        Inl e \<Rightarrow> Inl e
      | Inr ss \<Rightarrow> Inr (JStr (join_strings sep ss)))"
| "call_join rt v sep = Inl TypeError"

definition js_whitespace :: "char \<Rightarrow> bool" where
  "js_whitespace c = ((of_char c :: nat) \<in> set [9, 10, 11, 12, 13, 32, 160])"

definition trim :: "string \<Rightarrow> string" where
  "trim s = rev (dropWhile js_whitespace (rev (dropWhile js_whitespace s)))"

fun call_trim :: "jsval \<Rightarrow> exn + jsval" where
  "call_trim (JStr s) = Inr (JStr (trim s))"
| "call_trim v = Inl TypeError"

text \<open>\<open>Object.keys(v)\<close>.\<close>

fun object_keys :: "jsval \<Rightarrow> exn + string list" where
  "object_keys JUndefined = Inl TypeError"
| "object_keys JNull = Inl TypeError"
| "object_keys (JObj kvs) = Inr (map fst kvs)"
| "object_keys (JArr xs) = Inr (map dec [0..<length xs])"
| "object_keys (JStr s) = Inr (map dec [0..<length s])"
| "object_keys v = Inr []"

section \<open>Requests, responses and the outside world\<close>

text \<open>
  \<open>res.status(n).json(v)\<close> sends \<open>Response n v\<close>; \<open>res.json(v)\<close> sends status 200.
  The body is the value handed to \<^verbatim>\<open>res.json\<close>.
\<close>

datatype response = Response nat jsval

definition error_body :: "string \<Rightarrow> jsval" where
  "error_body msg = JObj [(''error'', JStr msg)]"

record request =
  query :: jsval
  body :: jsval

text \<open>
  One constructor per call site of \<^verbatim>\<open>axios\<close> and of the completion client, with the
  value the handler puts into the request. Where the handler builds the URL with
  \<^verbatim>\<open>encodeURIComponent\<close> the call carries the string that is encoded.
\<close>

datatype upstream_call =
    PubmedSearch jsval
  | PubmedSummary jsval
  | TrialsStudies string
  | OrcidSearch string
  | OrcidProfile string
  | ScholarSearch string
  | ResearchGateSearch string
  | PapersSearch jsval
  | CollaborationsSearch string
  | GrantsSearch jsval
  | ChatSummary string
  | ChatHello

text \<open>
  Everything a handler reaches outside itself. \<open>upstream env i c\<close> is the outcome of
  call \<open>c\<close> when it is the \<open>i\<close>-th call the request makes: the response body
  (\<^verbatim>\<open>data\<close>, or the completion object), or what the call threw. The store, the digest
  functions and the token signer answer in the same way.
\<close>

record env =
  js :: runtime
  upstream :: "nat \<Rightarrow> upstream_call \<Rightarrow> exn + jsval"
  findUnique :: "jsval \<Rightarrow> exn + jsval"
  create :: "jsval \<Rightarrow> exn + jsval"
  bcrypt_hash :: "jsval \<Rightarrow> exn + jsval"
  bcrypt_compare :: "jsval \<Rightarrow> jsval \<Rightarrow> exn + bool"
  jwt_sign :: "jsval \<Rightarrow> jsval \<Rightarrow> jsval \<Rightarrow> exn + jsval"
  JWT_SECRET :: jsval
  OPENAI_API_KEY :: jsval

text \<open>
  What a handler did: the effects it issued in order (upstream calls for the data
  routes, store writes for registration), the responses it sent, and the exception that
  left the handler uncaught, if one did.
\<close>

record 'l outcome =
  effects :: "'l list"
  sent :: "response list"
  escaped :: "exn option"

text \<open>An action runs against the effects issued so far and may throw.\<close>

type_synonym ('l, 'a) act = "'l list \<Rightarrow> (exn + 'a) \<times> 'l list"

definition liftE :: "exn + 'a \<Rightarrow> ('l, 'a) act" where
  "liftE r = (\<lambda>tr. (r, tr))"

definition andThen :: "('l, 'a) act \<Rightarrow> ('a \<Rightarrow> ('l, 'b) act) \<Rightarrow> ('l, 'b) act" where
  "andThen m f = (\<lambda>tr. case m tr of (Inl e, tr') \<Rightarrow> (Inl e, tr') | (Inr x, tr') \<Rightarrow> f x tr')"

definition await :: "env \<Rightarrow> upstream_call \<Rightarrow> (upstream_call, jsval) act" where
  "await env c = (\<lambda>tr. (upstream env (length tr) c, tr @ [c]))"

text \<open>A guard that answers before the \<^verbatim>\<open>try\<close> block, and an exception outside of it.\<close>

definition reply :: "response \<Rightarrow> 'l outcome" where
  "reply r = \<lparr>effects = [], sent = [r], escaped = None\<rparr>"

definition escape :: "exn \<Rightarrow> 'l outcome" where
  "escape e = \<lparr>effects = [], sent = [], escaped = Some e\<rparr>"

text \<open>
  \<^verbatim>\<open>try { ... res.json(..) } catch (err) { res.status(..).json(..) }\<close>: the block ends by
  sending one response, and the handler of the exception sends one.
\<close>

definition try_catch :: "('l, response) act \<Rightarrow> (exn \<Rightarrow> response) \<Rightarrow> 'l outcome" where
  "try_catch block handler =
     (case block [] of
        (Inr r, tr) \<Rightarrow> \<lparr>effects = tr, sent = [r], escaped = None\<rparr>
      | (Inl e, tr) \<Rightarrow> \<lparr>effects = tr, sent = [handler e], escaped = None\<rparr>)"

section \<open>Research grants\<close>

text \<open>
  \<^verbatim>\<open>GET /api/research-data/grants\<close> (\<^verbatim>\<open>src/index.js\<close>, lines 389 to 430). The callback of
  \<^verbatim>\<open>data?.results?.map((g, index) => ...)\<close> is \<open>grant_record\<close>.
\<close>

definition grant_record :: "runtime \<Rightarrow> jsval \<Rightarrow> jsval \<Rightarrow> nat \<Rightarrow> exn + jsval" where
  "grant_record rt q g index =
     bindE (get g ''project_num'') (\<lambda>project_num.
     bindE (if nullish (read_prop g ''project_title'') then Inr JUndefined
            else call_trim (read_prop g ''project_title'')) (\<lambda>trimmed.
     bindE (if truthy trimmed then Inr trimmed
            else bindE (to_str rt q) (\<lambda>s. Inr (JStr (s @ '' Research Grant'')))) (\<lambda>title.
     bindE (if truthy (read_prop g ''award_amount'')
            then bindE (Number rt (read_prop g ''award_amount''))
                   (\<lambda>n. Inr (JStr (''$'' @ toLocaleString rt n)))
            else Inr (JStr ''Not disclosed'')) (\<lambda>amount.
     bindE (if truthy project_num
            then bindE (to_str rt project_num)
                   (\<lambda>s. Inr (JStr (''https://reporter.nih.gov/project-details/'' @ s)))
            else Inr (JStr ''#'')) (\<lambda>url.
     Inr (JObj
       [(''id'', if truthy project_num then project_num else JStr (''grant-'' @ dec index)),
        (''title'', title),
        (''agency'', or_else (read_prop g ''agency'') (JStr ''NIH'')),
        (''organization'',
           or_else (oget (read_prop g ''organization'') ''org_name'') (JStr ''Unknown Organization'')),
        (''pi'',
           or_else (oget (oget (read_prop g ''principal_investigators'') ''0'') ''pi_name'')
             (JStr ''Unknown PI'')),
        (''amount'', amount),
        (''url'', url)]))))))"

definition grants_results :: "runtime \<Rightarrow> jsval \<Rightarrow> jsval \<Rightarrow> exn + jsval" where
  "grants_results rt q data =
     (if nullish (oget data ''results'') then Inr (JArr [])
      else bindE (call_map (oget data ''results'') (grant_record rt q))
             (\<lambda>mapped. Inr (or_else mapped (JArr []))))"

definition grants :: "env \<Rightarrow> request \<Rightarrow> upstream_call outcome" where
  "grants env req =
     try_catch
       (andThen (liftE (get (query req) ''query'')) (\<lambda>q0.
        andThen (await env (GrantsSearch (or_else q0 (JStr ''cancer'')))) (\<lambda>data.
        andThen (liftE (grants_results (js env) (or_else q0 (JStr ''cancer'')) data)) (\<lambda>results.
        liftE (Inr (Response 200 (JObj [(''results'', results)])))))))
       (\<lambda>err. Response 500 (error_body ''Failed to fetch grants data''))"

section \<open>PubMed\<close>

text \<open>
  \<^verbatim>\<open>GET /api/patient-data/pubmed\<close> (\<^verbatim>\<open>src/index.js\<close>, lines 130 to 182): an id search,
  then one summary call for the ids found. \<open>paper_record\<close> is the callback of the last
  \<^verbatim>\<open>map\<close>, with \<open>p = all[key]\<close>.
\<close>

definition paper_record :: "runtime \<Rightarrow> jsval \<Rightarrow> string \<Rightarrow> exn + jsval" where
  "paper_record rt all key =
     (let p = read_prop all key in
      bindE (get p ''uid'') (\<lambda>uid.
      bindE (if nullish (read_prop p ''authors'') then Inr JUndefined
             else bindE (call_map (read_prop p ''authors'') (\<lambda>a i. get a ''name''))
                    (\<lambda>names. call_join rt names '', '')) (\<lambda>authors.
      bindE (to_str rt uid) (\<lambda>s.
      Inr (JObj
        [(''id'', uid),
         (''title'', read_prop p ''title''),
         (''journal'', or_else (read_prop p ''fulljournalname'') (read_prop p ''source'')),
         (''pubDate'', read_prop p ''pubdate''),
         (''authors'', authors),
         (''link'', JStr (''https://pubmed.ncbi.nlm.nih.gov/'' @ s @ ''/''))])))))"

definition pubmed_papers :: "runtime \<Rightarrow> jsval \<Rightarrow> exn + jsval" where
  "pubmed_papers rt all =
     bindE (object_keys all) (\<lambda>keys.
     bindE (sequence (map (paper_record rt all) (filter (\<lambda>k. k \<noteq> ''uids'') keys)))
       (\<lambda>papers. Inr (JArr papers)))"

text \<open>\<open>ids = searchRes.data?.esearchresult?.idlist || []\<close>.\<close>

definition pubmed_ids :: "jsval \<Rightarrow> jsval" where
  "pubmed_ids data = or_else (oget (oget data ''esearchresult'') ''idlist'') (JArr [])"

text \<open>The second call and what follows it.\<close>

definition pubmed_summaries :: "env \<Rightarrow> jsval \<Rightarrow> (upstream_call, response) act" where
  "pubmed_summaries env ids =
     andThen (liftE (call_join (js env) ids '','')) (\<lambda>joined.
     andThen (await env (PubmedSummary joined)) (\<lambda>data.
     andThen (liftE (pubmed_papers (js env) (or_else (oget data ''result'') (JObj [])))) (\<lambda>papers.
     liftE (Inr (Response 200 (JObj [(''results'', papers)]))))))"

definition pubmed :: "env \<Rightarrow> request \<Rightarrow> upstream_call outcome" where
  "pubmed env req =
     (case get (query req) ''query'' of
        Inl e \<Rightarrow> escape e
      | Inr q \<Rightarrow>
          if \<not> truthy q then reply (Response 400 (error_body ''Missing query parameter''))
          else try_catch
            (andThen (await env (PubmedSearch q)) (\<lambda>data.
               if read_prop (pubmed_ids data) ''length'' = JNum (Finite 0)
               then liftE (Inr (Response 200 (JObj [(''results'', JArr [])])))
               else pubmed_summaries env (pubmed_ids data)))
            (\<lambda>err. Response 500 (error_body ''PubMed fetch failed'')))"

text \<open>
  The second copy of the server (\<^verbatim>\<open>src/unnamed/part_000\<close>, lines 137 to 166) tests
  \<^verbatim>\<open>!ids.length\<close> where the first tests \<^verbatim>\<open>ids.length === 0\<close>; the rest is the same.
\<close>

definition pubmed_part_000 :: "env \<Rightarrow> request \<Rightarrow> upstream_call outcome" where
  "pubmed_part_000 env req =
     (case get (query req) ''query'' of
        Inl e \<Rightarrow> escape e
      | Inr q \<Rightarrow>
          if \<not> truthy q then reply (Response 400 (error_body ''Missing query parameter''))
          else try_catch
            (andThen (await env (PubmedSearch q)) (\<lambda>data.
               if \<not> truthy (read_prop (pubmed_ids data) ''length'')
               then liftE (Inr (Response 200 (JObj [(''results'', JArr [])])))
               else pubmed_summaries env (pubmed_ids data)))
            (\<lambda>err. Response 500 (error_body ''PubMed fetch failed'')))"

section \<open>Clinical trials\<close>

text \<open>\<^verbatim>\<open>GET /api/patient-data/trials\<close> (\<^verbatim>\<open>src/index.js\<close>, lines 187 to 232).\<close>

definition trial_record :: "runtime \<Rightarrow> jsval \<Rightarrow> exn + jsval" where
  "trial_record rt s =
     bindE (get s ''protocolSection'') (\<lambda>ps.
     let idm = oget ps ''identificationModule'';
         nctId = oget idm ''nctId'';
         title = or_else (or_else (oget idm ''briefTitle'') (oget idm ''officialTitle''))
                   (JStr ''Untitled Trial'');
         status = or_else (oget (oget ps ''statusModule'') ''overallStatus'')
                    (JStr ''Status Unknown'');
         cs = oget (oget ps ''conditionsModule'') ''conditions'';
         ls = oget (oget ps ''contactsLocationsModule'') ''locations''
     in
     bindE (if nullish cs then Inr JUndefined else call_join rt cs '', '') (\<lambda>conditions.
     bindE (if nullish ls then Inr JUndefined
            else bindE (call_map ls
                          (\<lambda>loc i. bindE (get loc ''facility'') (\<lambda>f. Inr (oget f ''name''))))
                   (\<lambda>names. call_join rt names '', '')) (\<lambda>locations.
     bindE (to_str rt nctId) (\<lambda>n.
     Inr (JObj
       [(''id'', nctId),
        (''title'', title),
        (''status'', status),
        (''condition'', or_else conditions (JStr ''Condition not specified'')),
        (''location'', or_else locations (JStr ''No locations listed'')),
        (''url'', JStr (''https://clinicaltrials.gov/study/'' @ n))])))))"

definition trials :: "env \<Rightarrow> request \<Rightarrow> upstream_call outcome" where
  "trials env req =
     try_catch
       (andThen (liftE (get (query req) ''condition'')) (\<lambda>c0.
        andThen (liftE (to_str (js env) (or_else c0 (JStr ''cancer'')))) (\<lambda>condition.
        andThen (await env (TrialsStudies condition)) (\<lambda>data.
        andThen (liftE (call_map (or_else (oget data ''studies'') (JArr []))
                          (\<lambda>s i. trial_record (js env) s))) (\<lambda>results.
        liftE (Inr (Response 200 (JObj [(''results'', results)]))))))))
       (\<lambda>err. Response 500 (error_body ''Failed to fetch Clinical Trials''))"

section \<open>ORCID\<close>

text \<open>
  \<^verbatim>\<open>GET /api/patient-data/orcid\<close> (\<^verbatim>\<open>src/index.js\<close>, lines 237 to 290): one search, then
  one profile call for each of the first five results that carries an identifier.
\<close>

definition work_record :: "jsval \<Rightarrow> jsval" where
  "work_record w =
     (let summary = oget (oget w ''work-summary'') ''0'' in
      JObj [(''title'', oget (oget (oget summary ''title'') ''title'') ''value''),
            (''year'', oget (oget (oget summary ''publication-date'') ''year'') ''value'')])"

definition orcid_works :: "jsval \<Rightarrow> exn + jsval" where
  "orcid_works profile =
     (let grp = oget (oget (oget profile ''activities_summary'') ''works'') ''group'' in
      if nullish grp then Inr JUndefined
      else bindE (call_slice grp 3) (\<lambda>first. call_map first (\<lambda>w i. Inr (work_record w))))"

definition profile_record :: "runtime \<Rightarrow> jsval \<Rightarrow> jsval \<Rightarrow> exn + jsval" where
  "profile_record rt ident profile =
     (let person_name = oget (oget profile ''person'') ''name'';
          given = or_else (oget (oget person_name ''given-names'') ''value'') (JStr []);
          family = or_else (oget (oget person_name ''family-name'') ''value'') (JStr []);
          bio = or_else (oget (oget (oget profile ''person'') ''biography'') ''content'') (JStr [])
      in
      bindE (orcid_works profile) (\<lambda>works.
      bindE (to_str rt given) (\<lambda>g.
      bindE (to_str rt family) (\<lambda>f.
      bindE (to_str rt ident) (\<lambda>i.
      Inr (JObj
        [(''id'', ident),
         (''name'', JStr (trim (g @ '' '' @ f))),
         (''biography'', bio),
         (''works'', or_else works (JArr [])),
         (''link'', JStr (''https://orcid.org/'' @ i))]))))))"

text \<open>
  One round of the \<^verbatim>\<open>for\<close> loop: \<open>None\<close> is \<^verbatim>\<open>continue\<close>, \<open>Some record\<close> is what
  \<^verbatim>\<open>detailed.push\<close> appends.
\<close>

definition orcid_step :: "env \<Rightarrow> jsval \<Rightarrow> (upstream_call, jsval option) act" where
  "orcid_step env r =
     andThen (liftE (get r ''orcid-identifier'')) (\<lambda>oi.
     if \<not> truthy (oget oi ''path'') then liftE (Inr None)
     else
       andThen (liftE (to_str (js env) (oget oi ''path''))) (\<lambda>path.
       andThen (await env (OrcidProfile path)) (\<lambda>profile.
       andThen (liftE (profile_record (js env) (oget oi ''path'') profile)) (\<lambda>pushed.
       liftE (Inr (Some pushed))))))"

fun orcid_loop :: "env \<Rightarrow> jsval list \<Rightarrow> jsval list \<Rightarrow> (upstream_call, jsval list) act" where
  "orcid_loop env [] detailed = liftE (Inr detailed)"
| "orcid_loop env (r # rs) detailed =
     andThen (orcid_step env r) (\<lambda>pushed.
       orcid_loop env rs (case pushed of None \<Rightarrow> detailed | Some p \<Rightarrow> detailed @ [p]))"

text \<open>What \<^verbatim>\<open>for (const r of v)\<close> visits, for the array or string that \<^verbatim>\<open>slice\<close> returns.\<close>

fun elements :: "jsval \<Rightarrow> jsval list" where
  "elements (JArr xs) = xs"
| "elements (JStr s) = map (\<lambda>c. JStr [c]) s"
| "elements v = []"

definition orcid :: "env \<Rightarrow> request \<Rightarrow> upstream_call outcome" where
  "orcid env req =
     (case get (query req) ''name'' of
        Inl e \<Rightarrow> escape e
      | Inr name \<Rightarrow>
          if \<not> truthy name then reply (Response 400 (error_body ''Missing name''))
          else try_catch
            (andThen (liftE (to_str (js env) name)) (\<lambda>n.
             andThen (await env (OrcidSearch n)) (\<lambda>data.
             if read_prop (or_else (oget data ''result'') (JArr [])) ''length'' = JNum (Finite 0)
             then liftE (Inr (Response 200 (JObj [(''result'', JArr [])])))
             else
               andThen (liftE (call_slice (or_else (oget data ''result'') (JArr [])) 5)) (\<lambda>first.
               andThen (orcid_loop env (elements first) []) (\<lambda>detailed.
               liftE (Inr (Response 200 (JObj [(''result'', JArr detailed)]))))))))
            (\<lambda>err. Response 500 (error_body ''ORCID fetch failed'')))"

section \<open>Scholar, ResearchGate, papers and collaborations\<close>

text \<open>\<^verbatim>\<open>GET /api/patient-data/scholar\<close> (\<^verbatim>\<open>src/index.js\<close>, lines 294 to 310).\<close>

definition scholar :: "env \<Rightarrow> request \<Rightarrow> upstream_call outcome" where
  "scholar env req =
     (case get (query req) ''topic'' of
        Inl e \<Rightarrow> escape e
      | Inr topic \<Rightarrow>
          if \<not> truthy topic then reply (Response 400 (error_body ''Missing topic''))
          else try_catch
            (andThen (liftE (to_str (js env) topic)) (\<lambda>t.
             andThen (await env (ScholarSearch t)) (\<lambda>data.
             liftE (Inr (Response 200 (or_else (oget data ''organic_results'') (JArr [])))))))
            (\<lambda>err. Response 500 (error_body ''Scholar fetch failed'')))"

text \<open>
  \<^verbatim>\<open>GET /api/patient-data/researchgate\<close> (\<^verbatim>\<open>src/index.js\<close>, lines 313 to 335). Its
  \<^verbatim>\<open>catch\<close> block answers \<^verbatim>\<open>res.json({ results: [] })\<close>.
\<close>

definition researchgate_record :: "jsval \<Rightarrow> exn + jsval" where
  "researchgate_record r =
     bindE (get r ''title'') (\<lambda>title.
     Inr (JObj [(''title'', title),
                (''link'', read_prop r ''link''),
                (''snippet'', read_prop r ''snippet'')]))"

definition researchgate_results :: "jsval \<Rightarrow> exn + jsval" where
  "researchgate_results data =
     bindE (get data ''organic_results'') (\<lambda>organic.
     if nullish organic then Inr JUndefined
     else call_map organic (\<lambda>r i. researchgate_record r))"

definition researchgate :: "env \<Rightarrow> request \<Rightarrow> upstream_call outcome" where
  "researchgate env req =
     (case get (query req) ''topic'' of
        Inl e \<Rightarrow> escape e
      | Inr topic \<Rightarrow>
          if \<not> truthy topic then reply (Response 400 (error_body ''Missing topic''))
          else try_catch
            (andThen (liftE (to_str (js env) topic)) (\<lambda>t.
             andThen (await env (ResearchGateSearch t)) (\<lambda>data.
             andThen (liftE (researchgate_results data)) (\<lambda>results.
             liftE (Inr (Response 200 (JObj [(''results'', or_else results (JArr []))])))))))
            (\<lambda>err. Response 200 (JObj [(''results'', JArr [])])))"

text \<open>\<^verbatim>\<open>GET /api/research-data/papers\<close> (\<^verbatim>\<open>src/index.js\<close>, lines 340 to 362).\<close>

definition europepmc_record :: "runtime \<Rightarrow> jsval \<Rightarrow> exn + jsval" where
  "europepmc_record rt p =
     bindE (get p ''title'') (\<lambda>title.
     let url = oget (oget (oget (read_prop p ''fullTextUrlList'') ''fullTextUrl'') ''0'') ''url'' in
     bindE (if truthy url then Inr url
            else bindE (to_str rt (read_prop p ''source'')) (\<lambda>s.
                 bindE (to_str rt (read_prop p ''id'')) (\<lambda>i.
                 Inr (JStr (''https://europepmc.org/article/'' @ s @ ''/'' @ i))))) (\<lambda>link.
     Inr (JObj [(''title'', title),
                (''authors'', or_else (read_prop p ''authorString'') (JStr ''Unknown authors'')),
                (''link'', link)])))"

definition papers_results :: "runtime \<Rightarrow> jsval \<Rightarrow> exn + jsval" where
  "papers_results rt data =
     bindE (get data ''resultList'') (\<lambda>resultList.
     call_map (or_else (oget resultList ''result'') (JArr [])) (\<lambda>p i. europepmc_record rt p))"

definition papers :: "env \<Rightarrow> request \<Rightarrow> upstream_call outcome" where
  "papers env req =
     try_catch
       (andThen (liftE (get (query req) ''topic'')) (\<lambda>t0.
        andThen (await env (PapersSearch (or_else t0 (JStr ''oncology'')))) (\<lambda>data.
        andThen (liftE (papers_results (js env) data)) (\<lambda>results.
        liftE (Inr (Response 200 (JObj [(''results'', results)])))))))
       (\<lambda>err. Response 500 (error_body ''Failed to fetch papers''))"

text \<open>\<^verbatim>\<open>GET /api/research-data/collaborations\<close> (\<^verbatim>\<open>src/index.js\<close>, lines 365 to 385).\<close>

definition collaborator_record :: "jsval \<Rightarrow> exn + jsval" where
  "collaborator_record c =
     bindE (get c ''name'') (\<lambda>name.
     Inr (JObj [(''name'', name),
                (''institution'', or_else (oget (read_prop c ''affiliations'') ''0'') (JStr ''Unknown'')),
                (''id'', read_prop c ''authorId'')]))"

definition collaborations_results :: "jsval \<Rightarrow> exn + jsval" where
  "collaborations_results data =
     bindE (get data ''data'') (\<lambda>authors.
     call_map (or_else authors (JArr [])) (\<lambda>c i. collaborator_record c))"

definition collaborations :: "env \<Rightarrow> request \<Rightarrow> upstream_call outcome" where
  "collaborations env req =
     try_catch
       (andThen (liftE (get (query req) ''query'')) (\<lambda>q0.
        andThen (liftE (to_str (js env) (or_else q0 (JStr ''AI research'')))) (\<lambda>q.
        andThen (await env (CollaborationsSearch q)) (\<lambda>data.
        andThen (liftE (collaborations_results data)) (\<lambda>results.
        liftE (Inr (Response 200 (JObj [(''results'', results)]))))))))
       (\<lambda>err. Response 500 (error_body ''Failed to fetch collaborations''))"

text \<open>
  A call of the request threw: the outcome of the \<open>i\<close>-th call is what the world answers
  to it at position \<open>i\<close>.
\<close>

definition threw :: "env \<Rightarrow> upstream_call outcome \<Rightarrow> bool" where
  "threw env out =
     list_ex (\<lambda>i. isl (upstream env i (effects out ! i))) [0..<length (effects out)]"

fun is_profile_call :: "upstream_call \<Rightarrow> bool" where
  "is_profile_call (OrcidProfile p) = True"
| "is_profile_call c = False"

section \<open>The summary route\<close>

text \<open>
  \<^verbatim>\<open>POST /api/ai-summary\<close> (\<^verbatim>\<open>src/index.js\<close>, lines 437 to 471). The \<^verbatim>\<open>catch\<close> block of
  this copy calls the completion client a second time, logs the answer and sends
  nothing; an exception in it leaves the handler.
\<close>

definition trimmed_symptoms :: "jsval \<Rightarrow> exn + jsval" where
  "trimmed_symptoms symptoms = (if nullish symptoms then Inr JUndefined else call_trim symptoms)"

definition summary_prompt :: "string \<Rightarrow> string" where
  "summary_prompt s = ''Summarize and provide research, trials, experts, next steps for: '' @ s"

definition completion_content :: "jsval \<Rightarrow> jsval" where
  "completion_content response =
     oget (oget (oget (oget response ''choices'') ''0'') ''message'') ''content''"

definition say_hello :: "env \<Rightarrow> (upstream_call, unit) act" where
  "say_hello env =
     andThen (await env ChatHello) (\<lambda>response.
     liftE (bindE (get response ''choices'') (\<lambda>choices.
            bindE (get choices ''0'') (\<lambda>choice.
            bindE (get choice ''message'') (\<lambda>message.
            bindE (get message ''content'') (\<lambda>content. Inr ()))))))"

definition ai_summary :: "env \<Rightarrow> request \<Rightarrow> upstream_call outcome" where
  "ai_summary env req =
     (case bindE (get (body req) ''symptoms'') trimmed_symptoms of
        Inl e \<Rightarrow> escape e
      | Inr trimmed \<Rightarrow>
          if \<not> truthy trimmed then reply (Response 400 (error_body ''Symptoms required''))
          else if \<not> truthy (OPENAI_API_KEY env)
          then reply (Response 500 (error_body ''OpenAI API key not set''))
          else
            (case andThen (liftE (to_str (js env) (read_prop (body req) ''symptoms''))) (\<lambda>s.
                  andThen (await env (ChatSummary (summary_prompt s))) (\<lambda>response.
                  if \<not> truthy (or_else (completion_content response) JNull)
                  then liftE (Inr (Response 500 (error_body ''OpenAI did not return a summary'')))
                  else liftE (Inr (Response 200
                         (JObj [(''summary'', or_else (completion_content response) JNull)])))))
                  []
             of (Inr r, tr) \<Rightarrow> \<lparr>effects = tr, sent = [r], escaped = None\<rparr>
              | (Inl err, tr) \<Rightarrow>
                  (case say_hello env tr of
                     (Inr u, tr') \<Rightarrow> \<lparr>effects = tr', sent = [], escaped = None\<rparr>
                   | (Inl e, tr') \<Rightarrow> \<lparr>effects = tr', sent = [], escaped = Some e\<rparr>)))"

text \<open>
  The same route in \<^verbatim>\<open>src/unnamed/part_000\<close> (lines 171 to 191): no test of the key, a
  default text for an empty completion, and a \<^verbatim>\<open>catch\<close> block that answers 500.
\<close>

definition ai_summary_part_000 :: "env \<Rightarrow> request \<Rightarrow> upstream_call outcome" where
  "ai_summary_part_000 env req =
     (case bindE (get (body req) ''symptoms'') trimmed_symptoms of
        Inl e \<Rightarrow> escape e
      | Inr trimmed \<Rightarrow>
          if \<not> truthy trimmed then reply (Response 400 (error_body ''Symptoms required''))
          else try_catch
            (andThen (liftE (to_str (js env) (read_prop (body req) ''symptoms''))) (\<lambda>s.
             andThen (await env (ChatSummary (summary_prompt s))) (\<lambda>response.
             liftE (Inr (Response 200
               (JObj [(''summary'',
                       or_else (completion_content response) (JStr ''No summary generated''))]))))))
            (\<lambda>err. Response 500 (error_body ''OpenAI API call failed'')))"

section \<open>Registration and login\<close>

text \<open>
  \<^verbatim>\<open>POST /api/register\<close> (\<^verbatim>\<open>src/index.js\<close>, lines 19 to 65; the same statements in
  \<^verbatim>\<open>src/unnamed/part_000\<close>, lines 47 to 79). \<open>register_data\<close> is the \<^verbatim>\<open>data\<close> object
  handed to \<^verbatim>\<open>prisma.user.create\<close>; the effects of the handler are the objects it asked
  the store to create.
\<close>

definition validUserTypes :: "jsval list" where
  "validUserTypes = [JStr ''PATIENT'', JStr ''RESEARCHER'']"

definition validGenders :: "jsval list" where
  "validGenders = [JStr ''MALE'', JStr ''FEMALE'', JStr ''OTHER'']"

text \<open>\<open>userType === "PATIENT" ? Number(age) || null : null\<close>.\<close>

definition coerce_age :: "runtime \<Rightarrow> jsval \<Rightarrow> jsval \<Rightarrow> exn + jsval" where
  "coerce_age rt userType age =
     (if userType = JStr ''PATIENT''
      then bindE (Number rt age) (\<lambda>n. Inr (or_else (JNum n) JNull))
      else Inr JNull)"

definition register_data :: "jsval \<Rightarrow> jsval \<Rightarrow> jsval \<Rightarrow> jsval" where
  "register_data b hashed age =
     JObj
       [(''firstName'', read_prop b ''firstName''),
        (''lastName'', read_prop b ''lastName''),
        (''email'', read_prop b ''email''),
        (''password'', hashed),
        (''gender'', read_prop b ''gender''),
        (''userType'', read_prop b ''userType''),
        (''fieldType'',
           if read_prop b ''userType'' = JStr ''RESEARCHER'' then read_prop b ''fieldType'' else JNull),
        (''age'', age),
        (''condition'',
           if read_prop b ''userType'' = JStr ''PATIENT'' then read_prop b ''condition'' else JNull),
        (''allergies'',
           if read_prop b ''userType'' = JStr ''PATIENT'' then read_prop b ''allergies'' else JNull)]"

definition store_create :: "env \<Rightarrow> jsval \<Rightarrow> (jsval, jsval) act" where
  "store_create env data = (\<lambda>tr. (create env data, tr @ [data]))"

definition register :: "env \<Rightarrow> request \<Rightarrow> jsval outcome" where
  "register env req =
     try_catch
       (andThen (liftE (get (body req) ''email'')) (\<lambda>email.
        andThen (liftE (findUnique env email)) (\<lambda>existing.
        if truthy existing
        then liftE (Inr (Response 400 (error_body ''Email already registered'')))
        else if read_prop (body req) ''userType'' \<notin> set validUserTypes
        then liftE (Inr (Response 400 (error_body ''Invalid userType'')))
        else if read_prop (body req) ''gender'' \<notin> set validGenders
        then liftE (Inr (Response 400 (error_body ''Invalid gender'')))
        else
          andThen (liftE (bcrypt_hash env (read_prop (body req) ''password''))) (\<lambda>hashed.
          andThen (liftE (coerce_age (js env) (read_prop (body req) ''userType'')
                            (read_prop (body req) ''age''))) (\<lambda>age.
          andThen (store_create env (register_data (body req) hashed age)) (\<lambda>user.
          liftE (Inr (Response 201
            (JObj [(''message'', JStr ''Registered successfully''), (''user'', user)])))))))))
       (\<lambda>err. Response 500 (error_body ''Server error''))"

text \<open>\<^verbatim>\<open>POST /api/login\<close> (\<^verbatim>\<open>src/index.js\<close>, lines 68 to 98; \<^verbatim>\<open>part_000\<close>, lines 82 to 108).\<close>

definition token_claims :: "jsval \<Rightarrow> jsval" where
  "token_claims user =
     JObj [(''id'', read_prop user ''id''),
           (''email'', read_prop user ''email''),
           (''userType'', read_prop user ''userType'')]"

definition public_user :: "jsval \<Rightarrow> jsval" where
  "public_user user =
     JObj [(''id'', read_prop user ''id''),
           (''email'', read_prop user ''email''),
           (''userType'', read_prop user ''userType''),
           (''firstName'', read_prop user ''firstName''),
           (''lastName'', read_prop user ''lastName'')]"

definition login :: "env \<Rightarrow> request \<Rightarrow> jsval outcome" where
  "login env req =
     try_catch
       (andThen (liftE (get (body req) ''email'')) (\<lambda>email.
        andThen (liftE (findUnique env email)) (\<lambda>user.
        if \<not> truthy user then liftE (Inr (Response 404 (error_body ''User not found'')))
        else
          andThen (liftE (bcrypt_compare env (read_prop (body req) ''password'')
                            (read_prop user ''password''))) (\<lambda>valid.
          if \<not> valid then liftE (Inr (Response 400 (error_body ''Invalid credentials'')))
          else
            andThen (liftE (jwt_sign env (token_claims user) (JWT_SECRET env)
                              (JObj [(''expiresIn'', JStr ''7d'')]))) (\<lambda>token.
            liftE (Inr (Response 200
              (JObj [(''message'', JStr ''Login successful''),
                     (''token'', token),
                     (''user'', public_user user)]))))))))
       (\<lambda>err. Response 500 (error_body ''Server error''))"

section \<open>Exceptions of upstream calls reach the \<^verbatim>\<open>catch\<close> block\<close>

text \<open>
  An action propagates when it only appends to the calls made so far and, whenever one
  of the calls it appends threw, ends in an exception itself.
\<close>

definition propagates :: "env \<Rightarrow> (upstream_call, 'a) act \<Rightarrow> bool" where
  "propagates env m =
     (\<forall>tr. \<exists>new. snd (m tr) = tr @ new \<and>
        ((\<exists>i<length new. isl (upstream env (length tr + i) (new ! i))) \<longrightarrow> isl (fst (m tr))))"

section \<open>Example worlds and requests\<close>

text \<open>
  A runtime for the examples: it prints the naturals and the three special numbers, and
  reads the empty string and strings of digits (the texts the examples use).
\<close>

fun read_digits :: "string \<Rightarrow> nat \<Rightarrow> nat option" where
  "read_digits [] acc = Some acc"
| "read_digits (c # cs) acc =
     (case map_of [(CHR ''0'', 0), (CHR ''1'', 1), (CHR ''2'', 2), (CHR ''3'', 3), (CHR ''4'', 4),
                   (CHR ''5'', 5), (CHR ''6'', 6), (CHR ''7'', 7), (CHR ''8'', 8), (CHR ''9'', 9)] c of
        None \<Rightarrow> None
      | Some d \<Rightarrow> read_digits cs (10 * acc + d))"

definition print_number :: "jsnum \<Rightarrow> string" where
  "print_number n =
     (case n of NaN \<Rightarrow> ''NaN'' | PosInfinity \<Rightarrow> ''Infinity'' | NegInfinity \<Rightarrow> ''-Infinity''
      | Finite r \<Rightarrow> dec (nat \<lfloor>r\<rfloor>))"

definition sample_runtime :: runtime where
  "sample_runtime =
     \<lparr>NumberToString = print_number,
      StringToNumber = (\<lambda>s. case read_digits s 0 of None \<Rightarrow> NaN | Some n \<Rightarrow> Finite (of_nat n)),
      toLocaleString = print_number\<rparr>"

text \<open>
  \<open>offline\<close>: every upstream call is refused; the store holds no user and returns what
  it is asked to create; no password matches.
\<close>

definition offline :: env where
  "offline =
     \<lparr>js = sample_runtime,
      upstream = (\<lambda>i c. Inl (Thrown (JObj [(''message'', JStr ''connect ECONNREFUSED'')]))),
      findUnique = (\<lambda>email. Inr JNull),
      create = (\<lambda>data. Inr data),
      bcrypt_hash = (\<lambda>password. Inr (JStr ''$2a$10$digest'')),
      bcrypt_compare = (\<lambda>password digest. Inr False),
      jwt_sign = (\<lambda>claims secret options. Inr (JStr ''header.claims.signature'')),
      JWT_SECRET = JStr ''secret'',
      OPENAI_API_KEY = JStr ''sk-example''\<rparr>"

text \<open>\<open>second_call_refused\<close>: the first call of a request is answered, every later one refused.\<close>

definition first_answer :: jsval where
  "first_answer =
     JObj [(''esearchresult'', JObj [(''idlist'', JArr [JStr ''101'', JStr ''102''])]),
           (''result'', JArr [JObj [(''orcid-identifier'', JObj [(''path'', JStr ''0000-0001'')])]])]"

definition second_call_refused :: env where
  "second_call_refused =
     offline\<lparr>upstream := (\<lambda>i c. if i = 0 then Inr first_answer
                                else Inl (Thrown (JObj [(''message'', JStr ''socket hang up'')])))\<rparr>"

definition search_request :: request where
  "search_request =
     \<lparr>query = JObj [(''query'', JStr ''asthma''), (''topic'', JStr ''asthma''),
                    (''name'', JStr ''curie''), (''condition'', JStr ''asthma'')],
      body = JObj []\<rparr>"

text \<open>A grants answer of two records, the second without \<^verbatim>\<open>project_num\<close>.\<close>

definition grants_records :: "jsval list" where
  "grants_records =
     [JObj [(''project_num'', JStr ''5R01CA000001''), (''project_title'', JStr '' Lung study '')],
      JObj [(''agency'', JStr ''NCI'')]]"

definition grants_answer :: jsval where
  "grants_answer = JObj [(''results'', JArr grants_records)]"

definition expected_grants :: "jsval list" where
  "expected_grants =
     [JObj [(''id'', JStr ''5R01CA000001''), (''title'', JStr ''Lung study''),
            (''agency'', JStr ''NIH''), (''organization'', JStr ''Unknown Organization''),
            (''pi'', JStr ''Unknown PI''), (''amount'', JStr ''Not disclosed''),
            (''url'', JStr ''https://reporter.nih.gov/project-details/5R01CA000001'')],
      JObj [(''id'', JStr ''grant-1''), (''title'', JStr ''asthma Research Grant''),
            (''agency'', JStr ''NCI''), (''organization'', JStr ''Unknown Organization''),
            (''pi'', JStr ''Unknown PI''), (''amount'', JStr ''Not disclosed''),
            (''url'', JStr ''#'')]]"

definition grants_world :: env where
  "grants_world = offline\<lparr>upstream := (\<lambda>i c. Inr grants_answer)\<rparr>"

text \<open>
  An ORCID search that finds seven researchers; every profile call is answered with the
  same short profile.
\<close>

definition candidate :: "string \<Rightarrow> jsval" where
  "candidate p = JObj [(''orcid-identifier'', JObj [(''path'', JStr p)])]"

definition orcid_world :: env where
  "orcid_world =
     offline\<lparr>upstream := (\<lambda>i c.
        if i = 0
        then Inr (JObj [(''result'',
               JArr [candidate ''a'', candidate ''b'', candidate ''c'', candidate ''d'',
                     candidate ''e'', candidate ''f'', candidate ''g''])])
        else Inr (JObj [(''person'', JObj [(''biography'', JObj [(''content'', JStr ''bio'')])])]))\<rparr>"

definition expected_profile :: "string \<Rightarrow> jsval" where
  "expected_profile p =
     JObj [(''id'', JStr p), (''name'', JStr []), (''biography'', JStr ''bio''),
           (''works'', JArr []), (''link'', JStr (''https://orcid.org/'' @ p))]"

text \<open>A PubMed search that finds nothing.\<close>

definition pubmed_void :: env where
  "pubmed_void =
     offline\<lparr>upstream := (\<lambda>i c. Inr (JObj [(''esearchresult'', JObj [(''idlist'', JArr [])])]))\<rparr>"

text \<open>
  A completion client whose first call is refused and whose second call is answered;
  and a request with symptoms.
\<close>

definition hello_answer :: jsval where
  "hello_answer =
     JObj [(''choices'', JArr [JObj [(''message'', JObj [(''content'', JStr ''Hello!'')])]])]"

definition completion_refused_once :: env where
  "completion_refused_once =
     offline\<lparr>upstream := (\<lambda>i c. if i = 0 then Inl (Thrown (JObj [(''status'', JStr ''429'')]))
                                else Inr hello_answer)\<rparr>"

definition symptoms_request :: request where
  "symptoms_request = \<lparr>query = JObj [], body = JObj [(''symptoms'', JStr ''fever'')]\<rparr>"

text \<open>
  A request whose symptoms are blanks, a client that answers with no choices, and a
  world without a key.
\<close>

definition blank_request :: request where
  "blank_request = \<lparr>query = JObj [], body = JObj [(''symptoms'', JStr ''   '')]\<rparr>"

definition empty_completion :: env where
  "empty_completion = offline\<lparr>upstream := (\<lambda>i c. Inr (JObj [(''choices'', JArr [])]))\<rparr>"

definition keyless :: env where
  "keyless = offline\<lparr>OPENAI_API_KEY := JUndefined\<rparr>"

text \<open>Registrations: a patient, with the age as given; and a request with another user type.\<close>

definition patient_request :: "jsval \<Rightarrow> request" where
  "patient_request age =
     \<lparr>query = JObj [],
      body = JObj [(''firstName'', JStr ''Ada''), (''lastName'', JStr ''Byron''),
                   (''email'', JStr ''ada@example.org''), (''password'', JStr ''pw''),
                   (''gender'', JStr ''FEMALE''), (''userType'', JStr ''PATIENT''),
                   (''fieldType'', JStr ''oncology''), (''age'', age),
                   (''condition'', JStr ''asthma'')]\<rparr>"

text \<open>A patient who sends no age.\<close>

definition ageless_request :: request where
  "ageless_request =
     \<lparr>query = JObj [],
      body = JObj [(''firstName'', JStr ''Ada''), (''lastName'', JStr ''Byron''),
                   (''email'', JStr ''ada@example.org''), (''password'', JStr ''pw''),
                   (''gender'', JStr ''FEMALE''), (''userType'', JStr ''PATIENT'')]\<rparr>"

definition researcher_request :: request where
  "researcher_request =
     \<lparr>query = JObj [],
      body = JObj [(''firstName'', JStr ''Ada''), (''lastName'', JStr ''Byron''),
                   (''email'', JStr ''ada@example.org''), (''password'', JStr ''pw''),
                   (''gender'', JStr ''FEMALE''), (''userType'', JStr ''RESEARCHER''),
                   (''fieldType'', JStr ''oncology''), (''age'', JNum (Finite 36)),
                   (''condition'', JStr ''asthma'')]\<rparr>"

definition doctor_request :: request where
  "doctor_request =
     \<lparr>query = JObj [],
      body = JObj [(''email'', JStr ''ada@example.org''), (''password'', JStr ''pw''),
                   (''gender'', JStr ''FEMALE''), (''userType'', JStr ''DOCTOR'')]\<rparr>"

text \<open>
  A store that holds one user, a digest function that accepts the password \<open>pw\<close>, and a
  signer that returns, in place of the encoded token, the claims and options it was given.
\<close>

definition ada :: jsval where
  "ada =
     JObj [(''id'', JNum (Finite 7)), (''firstName'', JStr ''Ada''), (''lastName'', JStr ''Byron''),
           (''email'', JStr ''ada@example.org''), (''password'', JStr ''$2a$10$digest''),
           (''gender'', JStr ''FEMALE''), (''userType'', JStr ''PATIENT'')]"

definition one_user :: env where
  "one_user =
     offline\<lparr>findUnique := (\<lambda>email. Inr (if email = JStr ''ada@example.org'' then ada else JNull)),
             bcrypt_compare := (\<lambda>password digest. Inr (password = JStr ''pw'')),
             jwt_sign := (\<lambda>claims secret options.
                Inr (JObj [(''claims'', claims), (''options'', options)]))\<rparr>"

definition login_request :: "string \<Rightarrow> string \<Rightarrow> request" where
  "login_request email password =
     \<lparr>query = JObj [], body = JObj [(''email'', JStr email), (''password'', JStr password)]\<rparr>"

section \<open>Lemmas on the building blocks\<close>

lemmas act_defs = try_catch_def andThen_def liftE_def await_def store_create_def

lemmas world_defs = offline_def sample_runtime_def search_request_def error_body_def reply_def
  escape_def get_def oget_def nullish_def or_else_def bindE_def threw_def trim_def
  js_whitespace_def dec.simps

lemma sequence_Inr:
  "sequence rs = Inr ys \<Longrightarrow> length ys = length rs \<and> (\<forall>i<length rs. rs ! i = Inr (ys ! i))"
proof (induction rs arbitrary: ys rule: sequence.induct)
  case 1
  then show ?case by simp
next
  case (2 e rs)
  then show ?case by simp
next
  case (3 x rs)
  then obtain xs where xs: "sequence rs = Inr xs" and ys: "ys = x # xs"
    by (auto split: sum.splits)
  from 3(1) [OF xs] show ?case
    by (auto simp: ys nth_Cons split: nat.splits)
qed

lemma call_map_Inr:
  assumes "call_map v f = Inr w"
  shows "\<exists>xs ys. v = JArr xs \<and> w = JArr ys \<and> length ys = length xs \<and>
           (\<forall>i<length xs. f (xs ! i) i = Inr (ys ! i))"
proof (cases v)
  case (JArr xs)
  with assms obtain ys where
    s: "sequence (map (\<lambda>(x, i). f x i) (zip xs [0..<length xs])) = Inr ys" and w: "w = JArr ys"
    by (auto split: sum.splits)
  from sequence_Inr [OF s] have "length ys = length xs"
    and "\<forall>i<length xs. f (xs ! i) i = Inr (ys ! i)"
    by auto
  with JArr w show ?thesis by blast
qed (use assms in auto)

lemma trim_whitespace:
  assumes "\<forall>c\<in>set s. js_whitespace c"
  shows "trim s = []"
  using assms by (auto simp: trim_def dropWhile_eq_Nil_conv dest: set_dropWhileD)

subsection \<open>Propagation\<close>

lemma propagates_liftE: "propagates env (liftE r)"
  by (simp add: propagates_def liftE_def)

lemma propagates_await: "propagates env (await env c)"
  by (auto simp: propagates_def await_def)

lemma propagates_andThen:
  assumes m: "propagates env m" and f: "\<And>x. propagates env (f x)"
  shows "propagates env (andThen m f)"
  unfolding propagates_def
proof
  fix tr
  from m obtain new1 where n1: "snd (m tr) = tr @ new1"
    and t1: "(\<exists>i<length new1. isl (upstream env (length tr + i) (new1 ! i))) \<longrightarrow> isl (fst (m tr))"
    unfolding propagates_def by blast
  show "\<exists>new. snd (andThen m f tr) = tr @ new \<and>
          ((\<exists>i<length new. isl (upstream env (length tr + i) (new ! i))) \<longrightarrow>
           isl (fst (andThen m f tr)))"
  proof (cases "fst (m tr)")
    case (Inl e)
    then have "andThen m f tr = (Inl e, tr @ new1)"
      using n1 by (cases "m tr") (simp add: andThen_def)
    then show ?thesis by auto
  next
    case (Inr x)
    then have eq: "andThen m f tr = f x (tr @ new1)"
      using n1 by (cases "m tr") (simp add: andThen_def)
    from Inr t1 have quiet: "\<not> (\<exists>i<length new1. isl (upstream env (length tr + i) (new1 ! i)))"
      by auto
    from f [of x] obtain new2 where n2: "snd (f x (tr @ new1)) = (tr @ new1) @ new2"
      and t2: "(\<exists>i<length new2. isl (upstream env (length (tr @ new1) + i) (new2 ! i)))
                 \<longrightarrow> isl (fst (f x (tr @ new1)))"
      unfolding propagates_def by blast
    have "(\<exists>i<length (new1 @ new2). isl (upstream env (length tr + i) ((new1 @ new2) ! i)))
            \<longrightarrow> isl (fst (f x (tr @ new1)))"
    proof
      assume "\<exists>i<length (new1 @ new2). isl (upstream env (length tr + i) ((new1 @ new2) ! i))"
      then obtain i where i: "i < length new1 + length new2"
        and th: "isl (upstream env (length tr + i) ((new1 @ new2) ! i))" by auto
      show "isl (fst (f x (tr @ new1)))"
      proof (cases "i < length new1")
        case True
        with th quiet show ?thesis by (auto simp: nth_append)
      next
        case False
        then have "i - length new1 < length new2" using i by arith
        moreover have
          "isl (upstream env (length (tr @ new1) + (i - length new1)) (new2 ! (i - length new1)))"
          using th False by (simp add: nth_append)
        ultimately show ?thesis using t2 by blast
      qed
    qed
    with n2 eq show ?thesis by (intro exI [of _ "new1 @ new2"]) simp
  qed
qed

lemma propagates_if:
  "(c \<Longrightarrow> propagates env a) \<Longrightarrow> (\<not> c \<Longrightarrow> propagates env b) \<Longrightarrow>
     propagates env (if c then a else b)"
  by simp

lemmas propagates_intros = propagates_andThen propagates_liftE propagates_await propagates_if

lemma threw_iff:
  "threw env out \<longleftrightarrow> (\<exists>i<length (effects out). isl (upstream env i (effects out ! i)))"
  by (auto simp: threw_def list_ex_iff)

lemma try_catch_threw:
  assumes "threw env (try_catch block (\<lambda>err. r))" and "propagates env block"
  shows "sent (try_catch block (\<lambda>err. r)) = [r]"
proof -
  from assms(2) obtain new where n: "snd (block []) = new"
    and t: "(\<exists>i<length new. isl (upstream env i (new ! i))) \<longrightarrow> isl (fst (block []))"
    unfolding propagates_def by (metis append_Nil list.size(3) add_0)
  have "effects (try_catch block (\<lambda>err. r)) = new"
    using n by (cases "block []") (auto simp: try_catch_def split: sum.splits)
  with assms(1) t have "isl (fst (block []))" by (simp add: threw_iff)
  then show ?thesis
    by (cases "block []") (auto simp: try_catch_def split: sum.splits)
qed

lemma not_threw_reply: "\<not> threw env (reply r)"
  by (simp add: threw_def reply_def)

lemma not_threw_escape: "\<not> threw env (escape e)"
  by (simp add: threw_def escape_def)

lemma propagates_pubmed_summaries: "propagates env (pubmed_summaries env ids)"
  unfolding pubmed_summaries_def by (intro propagates_intros)

lemma propagates_orcid_step: "propagates env (orcid_step env r)"
  unfolding orcid_step_def by (intro propagates_intros)

lemma propagates_orcid_loop: "propagates env (orcid_loop env rs detailed)"
  by (induction rs arbitrary: detailed)
     (simp_all add: propagates_liftE propagates_andThen propagates_orcid_step)

subsection \<open>Each handler with a \<^verbatim>\<open>catch\<close> block that answers 500\<close>

lemma trials_threw:
  assumes "threw env (trials env req)"
  shows "sent (trials env req) = [Response 500 (error_body ''Failed to fetch Clinical Trials'')]"
  using assms unfolding trials_def
  by (rule try_catch_threw) (intro propagates_intros)

lemma papers_threw:
  assumes "threw env (papers env req)"
  shows "sent (papers env req) = [Response 500 (error_body ''Failed to fetch papers'')]"
  using assms unfolding papers_def
  by (rule try_catch_threw) (intro propagates_intros)

lemma collaborations_threw:
  assumes "threw env (collaborations env req)"
  shows "sent (collaborations env req) =
           [Response 500 (error_body ''Failed to fetch collaborations'')]"
  using assms unfolding collaborations_def
  by (rule try_catch_threw) (intro propagates_intros)

lemma grants_threw:
  assumes "threw env (grants env req)"
  shows "sent (grants env req) = [Response 500 (error_body ''Failed to fetch grants data'')]"
  using assms unfolding grants_def
  by (rule try_catch_threw) (intro propagates_intros)

lemma pubmed_threw:
  assumes "threw env (pubmed env req)"
  shows "sent (pubmed env req) = [Response 500 (error_body ''PubMed fetch failed'')]"
  using assms
  by (auto simp: pubmed_def not_threw_escape not_threw_reply split: sum.splits if_splits
           intro!: try_catch_threw propagates_intros propagates_pubmed_summaries)

lemma pubmed_part_000_threw:
  assumes "threw env (pubmed_part_000 env req)"
  shows "sent (pubmed_part_000 env req) = [Response 500 (error_body ''PubMed fetch failed'')]"
  using assms
  by (auto simp: pubmed_part_000_def not_threw_escape not_threw_reply split: sum.splits if_splits
           intro!: try_catch_threw propagates_intros propagates_pubmed_summaries)

lemma orcid_threw:
  assumes "threw env (orcid env req)"
  shows "sent (orcid env req) = [Response 500 (error_body ''ORCID fetch failed'')]"
  using assms
  by (auto simp: orcid_def not_threw_escape not_threw_reply split: sum.splits if_splits
           intro!: try_catch_threw propagates_intros propagates_orcid_loop)

lemma scholar_threw:
  assumes "threw env (scholar env req)"
  shows "sent (scholar env req) = [Response 500 (error_body ''Scholar fetch failed'')]"
  using assms
  by (auto simp: scholar_def not_threw_escape not_threw_reply split: sum.splits if_splits
           intro!: try_catch_threw propagates_intros)

lemma researchgate_threw:
  assumes "threw env (researchgate env req)"
  shows "sent (researchgate env req) = [Response 200 (JObj [(''results'', JArr [])])]"
  using assms
  by (auto simp: researchgate_def not_threw_escape not_threw_reply split: sum.splits if_splits
           intro!: try_catch_threw propagates_intros)

subsection \<open>Registration and the ORCID loop\<close>

lemma register_created:
  assumes "sent (register env req) = [Response 201 b]"
  shows "\<exists>hashed age.
           effects (register env req) = [register_data (body req) hashed age] \<and>
           read_prop (body req) ''userType'' \<in> set validUserTypes \<and>
           coerce_age (js env) (read_prop (body req) ''userType'') (read_prop (body req) ''age'')
             = Inr age"
  using assms
  by (auto simp: register_def act_defs error_body_def split: sum.splits if_splits)

lemma orcid_step_bound:
  assumes "orcid_step env r tr = (res, tr')"
  shows "length (filter is_profile_call tr') \<le> Suc (length (filter is_profile_call tr))"
  using assms
  by (auto simp: orcid_step_def andThen_def liftE_def await_def
           split: sum.splits if_splits prod.splits)

lemma orcid_loop_bound:
  assumes "orcid_loop env rs detailed tr = (res, tr')"
  shows "length (filter is_profile_call tr') \<le> length (filter is_profile_call tr) + length rs \<and>
         (\<forall>ds. res = Inr ds \<longrightarrow> length ds \<le> length detailed + length rs)"
  using assms
proof (induction rs arbitrary: detailed tr)
  case Nil
  then show ?case by (auto simp: liftE_def)
next
  case (Cons r rs)
  obtain s tr1 where step: "orcid_step env r tr = (s, tr1)" by (cases "orcid_step env r tr")
  note b = orcid_step_bound [OF step]
  show ?case
  proof (cases s)
    case (Inl e)
    with Cons.prems step b show ?thesis by (auto simp: andThen_def)
  next
    case (Inr pushed)
    with Cons.prems step have
      "orcid_loop env rs (case pushed of None \<Rightarrow> detailed | Some p \<Rightarrow> detailed @ [p]) tr1
         = (res, tr')"
      by (simp add: andThen_def)
    from Cons.IH [OF this] b show ?thesis
      by (auto split: option.splits)
  qed
qed

lemma elements_slice:
  "call_slice v n = Inr first \<Longrightarrow> length (elements first) \<le> n"
  by (cases v) auto

lemma grant_record_falsy:
  assumes "grant_record rt q g i = Inr r" and "\<not> truthy (read_prop g ''project_num'')"
  shows "read_prop r ''id'' = JStr (''grant-'' @ dec i) \<and> read_prop r ''url'' = JStr ''#''"
  using assms
  by (auto simp: grant_record_def bindE_def get_def split: sum.splits if_splits)

lemma register_patient_accepted:
  assumes "get (body req) ''email'' = Inr email"
    and "findUnique env email = Inr existing" and "\<not> truthy existing"
    and "read_prop (body req) ''userType'' = JStr ''PATIENT''"
    and "read_prop (body req) ''gender'' \<in> set validGenders"
    and "bcrypt_hash env (read_prop (body req) ''password'') = Inr hashed"
    and "Number (js env) (read_prop (body req) ''age'') = Inr n"
    and "create env (register_data (body req) hashed (or_else (JNum n) JNull)) = Inr user"
  shows "register env req =
           \<lparr>effects = [register_data (body req) hashed (or_else (JNum n) JNull)],
            sent = [Response 201
                      (JObj [(''message'', JStr ''Registered successfully''), (''user'', user)])],
            escaped = None\<rparr>"
  using assms
  by (simp add: register_def act_defs coerce_age_def bindE_def validUserTypes_def)

section \<open>The claims\<close>

text \<open>
  \<^bold>\<open>C1\<close>, as amended. If an upstream call of the request threw, each of the handlers for
  PubMed (both copies), trials, ORCID, scholar, papers, collaborations and grants sends
  exactly one response, status 500 with its own fixed message, whatever the call threw.
  The ResearchGate handler sends exactly one response as well, but it is the success
  envelope: status 200 with an empty result list.
\<close>

theorem upstream_failure_answers:
  "(threw env (pubmed env req) \<longrightarrow>
      sent (pubmed env req) = [Response 500 (error_body ''PubMed fetch failed'')]) \<and>
   (threw env (pubmed_part_000 env req) \<longrightarrow>
      sent (pubmed_part_000 env req) = [Response 500 (error_body ''PubMed fetch failed'')]) \<and>
   (threw env (trials env req) \<longrightarrow>
      sent (trials env req) = [Response 500 (error_body ''Failed to fetch Clinical Trials'')]) \<and>
   (threw env (orcid env req) \<longrightarrow>
      sent (orcid env req) = [Response 500 (error_body ''ORCID fetch failed'')]) \<and>
   (threw env (scholar env req) \<longrightarrow>
      sent (scholar env req) = [Response 500 (error_body ''Scholar fetch failed'')]) \<and>
   (threw env (papers env req) \<longrightarrow>
      sent (papers env req) = [Response 500 (error_body ''Failed to fetch papers'')]) \<and>
   (threw env (collaborations env req) \<longrightarrow>
      sent (collaborations env req) =
        [Response 500 (error_body ''Failed to fetch collaborations'')]) \<and>
   (threw env (grants env req) \<longrightarrow>
      sent (grants env req) = [Response 500 (error_body ''Failed to fetch grants data'')]) \<and>
   (threw env (researchgate env req) \<longrightarrow>
      sent (researchgate env req) = [Response 200 (JObj [(''results'', JArr [])])])"
  by (intro conjI impI pubmed_threw pubmed_part_000_threw trials_threw orcid_threw scholar_threw
        papers_threw collaborations_threw grants_threw researchgate_threw)

text \<open>
  With every call refused each handler answers as stated; and where the first call is
  answered and the second refused, PubMed and ORCID answer 500 after two calls.
\<close>

theorem upstream_failure_answers_witness:
  "threw offline (pubmed offline search_request) \<and>
   sent (pubmed offline search_request) = [Response 500 (error_body ''PubMed fetch failed'')] \<and>
   threw offline (pubmed_part_000 offline search_request) \<and>
   sent (pubmed_part_000 offline search_request) =
     [Response 500 (error_body ''PubMed fetch failed'')] \<and>
   threw offline (trials offline search_request) \<and>
   sent (trials offline search_request) =
     [Response 500 (error_body ''Failed to fetch Clinical Trials'')] \<and>
   threw offline (orcid offline search_request) \<and>
   sent (orcid offline search_request) = [Response 500 (error_body ''ORCID fetch failed'')] \<and>
   threw offline (scholar offline search_request) \<and>
   sent (scholar offline search_request) = [Response 500 (error_body ''Scholar fetch failed'')] \<and>
   threw offline (papers offline search_request) \<and>
   sent (papers offline search_request) = [Response 500 (error_body ''Failed to fetch papers'')] \<and>
   threw offline (collaborations offline search_request) \<and>
   sent (collaborations offline search_request) =
     [Response 500 (error_body ''Failed to fetch collaborations'')] \<and>
   threw offline (grants offline search_request) \<and>
   sent (grants offline search_request) =
     [Response 500 (error_body ''Failed to fetch grants data'')] \<and>
   threw offline (researchgate offline search_request) \<and>
   sent (researchgate offline search_request) = [Response 200 (JObj [(''results'', JArr [])])] \<and>
   effects (pubmed second_call_refused search_request) =
     [PubmedSearch (JStr ''asthma''), PubmedSummary (JStr ''101,102'')] \<and>
   threw second_call_refused (pubmed second_call_refused search_request) \<and>
   sent (pubmed second_call_refused search_request) =
     [Response 500 (error_body ''PubMed fetch failed'')] \<and>
   effects (orcid second_call_refused search_request) =
     [OrcidSearch ''curie'', OrcidProfile ''0000-0001''] \<and>
   threw second_call_refused (orcid second_call_refused search_request) \<and>
   sent (orcid second_call_refused search_request) =
     [Response 500 (error_body ''ORCID fetch failed'')]"
proof -
  have t: "threw offline (pubmed offline search_request)"
    "threw offline (pubmed_part_000 offline search_request)"
    "threw offline (trials offline search_request)"
    "threw offline (orcid offline search_request)"
    "threw offline (scholar offline search_request)"
    "threw offline (papers offline search_request)"
    "threw offline (collaborations offline search_request)"
    "threw offline (grants offline search_request)"
    "threw offline (researchgate offline search_request)"
    by (simp_all add: pubmed_def pubmed_part_000_def trials_def orcid_def scholar_def papers_def
          collaborations_def grants_def researchgate_def act_defs world_defs)
  have e: "effects (pubmed second_call_refused search_request) =
             [PubmedSearch (JStr ''asthma''), PubmedSummary (JStr ''101,102'')]"
    "effects (orcid second_call_refused search_request) =
             [OrcidSearch ''curie'', OrcidProfile ''0000-0001'']"
    by (simp_all add: pubmed_def pubmed_ids_def pubmed_summaries_def orcid_def orcid_step_def
          second_call_refused_def first_answer_def act_defs world_defs)
  have u: "threw second_call_refused (pubmed second_call_refused search_request)"
    "threw second_call_refused (orcid second_call_refused search_request)"
    by (simp_all add: threw_def e) (simp_all add: second_call_refused_def offline_def)
  from t u e upstream_failure_answers [of offline search_request]
    upstream_failure_answers [of second_call_refused search_request]
  show ?thesis by blast
qed

text \<open>
  The claim as first stated fails for ResearchGate: the upstream call is refused and the
  one response sent is status 200 with \<^verbatim>\<open>{results: []}\<close>.
\<close>

theorem researchgate_refused_answers_200:
  "effects (researchgate offline search_request) = [ResearchGateSearch ''asthma''] \<and>
   threw offline (researchgate offline search_request) \<and>
   sent (researchgate offline search_request) = [Response 200 (JObj [(''results'', JArr [])])]"
  by (simp add: researchgate_def act_defs world_defs)

text \<open>
  \<^bold>\<open>C2\<close>. The claim asks for one 500 response whenever the completion call throws. In
  \<^verbatim>\<open>src/index.js\<close> the \<^verbatim>\<open>catch\<close> block instead asks the client to say hello and sends
  nothing: with symptoms \<^verbatim>\<open>fever\<close>, a key, and a first completion call that is
  refused, two calls are made and no response is sent. The copy in
  \<^verbatim>\<open>src/unnamed/part_000\<close> answers 500 on the same input.
\<close>

theorem ai_summary_refused_completion:
  "ai_summary completion_refused_once symptoms_request =
     \<lparr>effects = [ChatSummary (summary_prompt ''fever''), ChatHello], sent = [], escaped = None\<rparr> \<and>
   sent (ai_summary_part_000 completion_refused_once symptoms_request) =
     [Response 500 (error_body ''OpenAI API call failed'')]"
  by (simp add: ai_summary_def ai_summary_part_000_def trimmed_symptoms_def say_hello_def
        completion_refused_once_def symptoms_request_def hello_answer_def act_defs world_defs)

text \<open>
  \<^bold>\<open>C3\<close>. When registration succeeds (status 201), the handler asked the store to create
  exactly one record; its \<^verbatim>\<open>userType\<close> is the request's and is \<^verbatim>\<open>PATIENT\<close> or
  \<^verbatim>\<open>RESEARCHER\<close>; for a patient \<^verbatim>\<open>fieldType\<close> is \<^verbatim>\<open>null\<close>, and for a researcher
  \<^verbatim>\<open>age\<close>, \<^verbatim>\<open>condition\<close> and \<^verbatim>\<open>allergies\<close> are \<^verbatim>\<open>null\<close>.
\<close>

theorem register_fields_by_userType:
  assumes "sent (register env req) = [Response 201 b]"
  shows "\<exists>data. effects (register env req) = [data] \<and>
           read_prop data ''userType'' = read_prop (body req) ''userType'' \<and>
           (read_prop data ''userType'' = JStr ''PATIENT'' \<or>
            read_prop data ''userType'' = JStr ''RESEARCHER'') \<and>
           (read_prop data ''userType'' = JStr ''PATIENT'' \<longrightarrow>
              read_prop data ''fieldType'' = JNull) \<and>
           (read_prop data ''userType'' = JStr ''RESEARCHER'' \<longrightarrow>
              read_prop data ''age'' = JNull \<and> read_prop data ''condition'' = JNull \<and>
              read_prop data ''allergies'' = JNull)"
proof -
  from register_created [OF assms] obtain hashed age where
    e: "effects (register env req) = [register_data (body req) hashed age]"
    and v: "read_prop (body req) ''userType'' \<in> set validUserTypes"
    and a: "coerce_age (js env) (read_prop (body req) ''userType'') (read_prop (body req) ''age'')
              = Inr age"
    by blast
  from v a have "read_prop (body req) ''userType'' = JStr ''RESEARCHER'' \<longrightarrow> age = JNull"
    by (auto simp: coerce_age_def validUserTypes_def)
  with e v show ?thesis
    by (auto simp: register_data_def validUserTypes_def)
qed

text \<open>
  A patient who sends a \<^verbatim>\<open>fieldType\<close> and a researcher who sends an age and a condition
  are both registered, the first without the field type, the second without age, condition
  and allergies.
\<close>

theorem register_fields_by_userType_witness:
  "sent (register offline (patient_request (JNum (Finite 34)))) =
     [Response 201 (JObj [(''message'', JStr ''Registered successfully''),
        (''user'', register_data (body (patient_request (JNum (Finite 34))))
                     (JStr ''$2a$10$digest'') (JNum (Finite 34)))])] \<and>
   effects (register offline (patient_request (JNum (Finite 34)))) =
     [register_data (body (patient_request (JNum (Finite 34))))
        (JStr ''$2a$10$digest'') (JNum (Finite 34))] \<and>
   read_prop (register_data (body (patient_request (JNum (Finite 34))))
                (JStr ''$2a$10$digest'') (JNum (Finite 34))) ''fieldType'' = JNull \<and>
   sent (register offline researcher_request) =
     [Response 201 (JObj [(''message'', JStr ''Registered successfully''),
        (''user'', register_data (body researcher_request) (JStr ''$2a$10$digest'') JNull)])] \<and>
   effects (register offline researcher_request) =
     [register_data (body researcher_request) (JStr ''$2a$10$digest'') JNull] \<and>
   read_prop (register_data (body researcher_request) (JStr ''$2a$10$digest'') JNull)
     ''fieldType'' = JStr ''oncology'' \<and>
   read_prop (register_data (body researcher_request) (JStr ''$2a$10$digest'') JNull)
     ''age'' = JNull \<and>
   read_prop (register_data (body researcher_request) (JStr ''$2a$10$digest'') JNull)
     ''condition'' = JNull \<and>
   read_prop (register_data (body researcher_request) (JStr ''$2a$10$digest'') JNull)
     ''allergies'' = JNull"
proof -
  have p: "sent (register offline (patient_request (JNum (Finite 34)))) =
     [Response 201 (JObj [(''message'', JStr ''Registered successfully''),
        (''user'', register_data (body (patient_request (JNum (Finite 34))))
                     (JStr ''$2a$10$digest'') (JNum (Finite 34)))])]"
    and pe: "effects (register offline (patient_request (JNum (Finite 34)))) =
     [register_data (body (patient_request (JNum (Finite 34))))
        (JStr ''$2a$10$digest'') (JNum (Finite 34))]"
    by (simp_all add: register_def patient_request_def validUserTypes_def validGenders_def
          coerce_age_def act_defs world_defs)
  have r: "sent (register offline researcher_request) =
     [Response 201 (JObj [(''message'', JStr ''Registered successfully''),
        (''user'', register_data (body researcher_request) (JStr ''$2a$10$digest'') JNull)])]"
    and re: "effects (register offline researcher_request) =
     [register_data (body researcher_request) (JStr ''$2a$10$digest'') JNull]"
    by (simp_all add: register_def researcher_request_def validUserTypes_def validGenders_def
          coerce_age_def act_defs world_defs)
  have ut: "read_prop (body (patient_request (JNum (Finite 34)))) ''userType'' = JStr ''PATIENT''"
    "read_prop (body researcher_request) ''userType'' = JStr ''RESEARCHER''"
    "read_prop (register_data (body researcher_request) (JStr ''$2a$10$digest'') JNull)
       ''fieldType'' = JStr ''oncology''"
    by (simp_all add: patient_request_def researcher_request_def register_data_def)
  from register_fields_by_userType [OF p] register_fields_by_userType [OF r] p pe r re ut
  show ?thesis by auto
qed

text \<open>
  \<^bold>\<open>C4\<close>. When login succeeds (status 200), the store returned a user for the email of
  the request, the token in the response is what the signer returned for the claims
  \<^verbatim>\<open>{id, email, userType}\<close> of that user, the configured secret and the option
  \<^verbatim>\<open>expiresIn: "7d"\<close>, and the user in the response has the five properties
  \<^verbatim>\<open>id\<close>, \<^verbatim>\<open>email\<close>, \<^verbatim>\<open>userType\<close>, \<^verbatim>\<open>firstName\<close>, \<^verbatim>\<open>lastName\<close> of the stored user and
  no other, so not the password digest.
\<close>

theorem login_token_and_projection:
  assumes "sent (login env req) = [Response 200 b]"
  shows "\<exists>user token.
           findUnique env (read_prop (body req) ''email'') = Inr user \<and>
           jwt_sign env
             (JObj [(''id'', read_prop user ''id''), (''email'', read_prop user ''email''),
                    (''userType'', read_prop user ''userType'')])
             (JWT_SECRET env) (JObj [(''expiresIn'', JStr ''7d'')]) = Inr token \<and>
           b = JObj [(''message'', JStr ''Login successful''),
                     (''token'', token),
                     (''user'',
                        JObj [(''id'', read_prop user ''id''),
                              (''email'', read_prop user ''email''),
                              (''userType'', read_prop user ''userType''),
                              (''firstName'', read_prop user ''firstName''),
                              (''lastName'', read_prop user ''lastName'')])]"
  using assms
  by (auto simp: login_def act_defs get_def token_claims_def public_user_def error_body_def
           split: sum.splits if_splits)

theorem login_token_and_projection_witness:
  "sent (login one_user (login_request ''ada@example.org'' ''pw'')) =
     [Response 200
        (JObj [(''message'', JStr ''Login successful''),
               (''token'',
                  JObj [(''claims'',
                           JObj [(''id'', JNum (Finite 7)), (''email'', JStr ''ada@example.org''),
                                 (''userType'', JStr ''PATIENT'')]),
                        (''options'', JObj [(''expiresIn'', JStr ''7d'')])]),
               (''user'',
                  JObj [(''id'', JNum (Finite 7)), (''email'', JStr ''ada@example.org''),
                        (''userType'', JStr ''PATIENT''), (''firstName'', JStr ''Ada''),
                        (''lastName'', JStr ''Byron'')])])] \<and>
   findUnique one_user (read_prop (body (login_request ''ada@example.org'' ''pw'')) ''email'')
     = Inr ada \<and>
   read_prop ada ''password'' = JStr ''$2a$10$digest''"
proof -
  have s: "sent (login one_user (login_request ''ada@example.org'' ''pw'')) =
     [Response 200
        (JObj [(''message'', JStr ''Login successful''),
               (''token'',
                  JObj [(''claims'',
                           JObj [(''id'', JNum (Finite 7)), (''email'', JStr ''ada@example.org''),
                                 (''userType'', JStr ''PATIENT'')]),
                        (''options'', JObj [(''expiresIn'', JStr ''7d'')])]),
               (''user'',
                  JObj [(''id'', JNum (Finite 7)), (''email'', JStr ''ada@example.org''),
                        (''userType'', JStr ''PATIENT''), (''firstName'', JStr ''Ada''),
                        (''lastName'', JStr ''Byron'')])])]"
    by (simp add: login_def login_request_def one_user_def ada_def token_claims_def
          public_user_def act_defs world_defs)
  have f: "findUnique one_user (read_prop (body (login_request ''ada@example.org'' ''pw'')) ''email'')
             = Inr ada"
    "read_prop ada ''password'' = JStr ''$2a$10$digest''"
    by (simp_all add: login_request_def one_user_def offline_def ada_def)
  from login_token_and_projection [OF s] s f show ?thesis by simp
qed

text \<open>
  \<^bold>\<open>C5\<close>. If the store finds no user at the email of the request, the one response is
  404 \<^verbatim>\<open>User not found\<close>; if it finds a user and the digest comparison of the password
  of the request yields false, the one response is 400 \<^verbatim>\<open>Invalid credentials\<close>.
  Conversely a 404 is sent only when the store found no user, and a 400 only when it
  found one and the comparison yielded false.
\<close>

theorem login_not_found_or_invalid:
  "(\<forall>email. get (body req) ''email'' = Inr email \<and> findUnique env email = Inr JNull \<longrightarrow>
      sent (login env req) = [Response 404 (error_body ''User not found'')]) \<and>
   (\<forall>email user. get (body req) ''email'' = Inr email \<and> findUnique env email = Inr user \<and>
      truthy user \<and>
      bcrypt_compare env (read_prop (body req) ''password'') (read_prop user ''password'')
        = Inr False \<longrightarrow>
      sent (login env req) = [Response 400 (error_body ''Invalid credentials'')]) \<and>
   (\<forall>b. sent (login env req) = [Response 404 b] \<longrightarrow>
      (\<exists>email u. get (body req) ''email'' = Inr email \<and> findUnique env email = Inr u \<and>
         \<not> truthy u)) \<and>
   (\<forall>b. sent (login env req) = [Response 400 b] \<longrightarrow>
      (\<exists>email user. get (body req) ''email'' = Inr email \<and> findUnique env email = Inr user \<and>
         truthy user \<and>
         bcrypt_compare env (read_prop (body req) ''password'') (read_prop user ''password'')
           = Inr False))"
  by (auto simp: login_def act_defs error_body_def split: sum.splits if_splits)

theorem login_not_found_or_invalid_witness:
  "get (body (login_request ''nobody@example.org'' ''pw'')) ''email''
     = Inr (JStr ''nobody@example.org'') \<and>
   findUnique one_user (JStr ''nobody@example.org'') = Inr JNull \<and>
   sent (login one_user (login_request ''nobody@example.org'' ''pw'')) =
     [Response 404 (error_body ''User not found'')] \<and>
   get (body (login_request ''ada@example.org'' ''guess'')) ''email''
     = Inr (JStr ''ada@example.org'') \<and>
   findUnique one_user (JStr ''ada@example.org'') = Inr ada \<and>
   truthy ada \<and>
   bcrypt_compare one_user (read_prop (body (login_request ''ada@example.org'' ''guess'')) ''password'')
     (read_prop ada ''password'') = Inr False \<and>
   sent (login one_user (login_request ''ada@example.org'' ''guess'')) =
     [Response 400 (error_body ''Invalid credentials'')]"
proof -
  have a: "get (body (login_request ''nobody@example.org'' ''pw'')) ''email''
             = Inr (JStr ''nobody@example.org'')"
    "findUnique one_user (JStr ''nobody@example.org'') = Inr JNull"
    "get (body (login_request ''ada@example.org'' ''guess'')) ''email''
             = Inr (JStr ''ada@example.org'')"
    "findUnique one_user (JStr ''ada@example.org'') = Inr ada"
    "truthy ada"
    "bcrypt_compare one_user
       (read_prop (body (login_request ''ada@example.org'' ''guess'')) ''password'')
       (read_prop ada ''password'') = Inr False"
    by (simp_all add: login_request_def one_user_def offline_def ada_def get_def nullish_def)
  from a login_not_found_or_invalid [of "login_request ''nobody@example.org'' ''pw''" one_user]
    login_not_found_or_invalid [of "login_request ''ada@example.org'' ''guess''" one_user]
  show ?thesis by blast
qed

text \<open>
  \<^bold>\<open>C6\<close>, as amended. When the \<^verbatim>\<open>userType\<close> of the request is neither \<^verbatim>\<open>PATIENT\<close>
  nor \<^verbatim>\<open>RESEARCHER\<close>, the handler asks the store to create nothing and sends exactly one
  response. The email is looked up before the user type is tested: the response is
  400 \<^verbatim>\<open>Invalid userType\<close> when the lookup finds no user, 400
  \<^verbatim>\<open>Email already registered\<close> when it finds one, and 500 \<^verbatim>\<open>Server error\<close> when the
  lookup (or reading the body) throws.
\<close>

theorem register_invalid_userType:
  assumes "read_prop (body req) ''userType'' \<notin> set validUserTypes"
  shows "effects (register env req) = [] \<and>
         sent (register env req) =
           [case bindE (get (body req) ''email'') (findUnique env) of
              Inl e \<Rightarrow> Response 500 (error_body ''Server error'')
            | Inr existing \<Rightarrow>
                if truthy existing then Response 400 (error_body ''Email already registered'')
                else Response 400 (error_body ''Invalid userType'')]"
  using assms
  by (auto simp: register_def act_defs bindE_def split: sum.splits)

theorem register_invalid_userType_witness:
  "read_prop (body doctor_request) ''userType'' = JStr ''DOCTOR'' \<and>
   JStr ''DOCTOR'' \<notin> set validUserTypes \<and>
   effects (register offline doctor_request) = [] \<and>
   sent (register offline doctor_request) = [Response 400 (error_body ''Invalid userType'')]"
proof -
  have a: "read_prop (body doctor_request) ''userType'' = JStr ''DOCTOR''"
    "JStr ''DOCTOR'' \<notin> set validUserTypes"
    "bindE (get (body doctor_request) ''email'') (findUnique offline) = Inr JNull"
    by (simp_all add: doctor_request_def validUserTypes_def offline_def bindE_def get_def
          nullish_def)
  from register_invalid_userType [of doctor_request offline] a show ?thesis by simp
qed

text \<open>
  The claim as first stated fails when the email is already registered: the user type
  \<^verbatim>\<open>DOCTOR\<close> is then answered with the conflict message, not with the validation message.
\<close>

theorem register_doctor_existing_email:
  "read_prop (body doctor_request) ''userType'' \<notin> set validUserTypes \<and>
   findUnique one_user (read_prop (body doctor_request) ''email'') = Inr ada \<and>
   sent (register one_user doctor_request) =
     [Response 400 (error_body ''Email already registered'')] \<and>
   sent (register one_user doctor_request) \<noteq> [Response 400 (error_body ''Invalid userType'')]"
  by (simp add: register_def doctor_request_def one_user_def ada_def validUserTypes_def
        act_defs world_defs)

text \<open>
  \<^bold>\<open>C7\<close>. Whatever the search call returns, a request to the ORCID endpoint makes at
  most five profile calls, and a successful response holds at most five records.
\<close>

theorem orcid_detail_cap:
  "length (filter is_profile_call (effects (orcid env req))) \<le> 5 \<and>
   (\<forall>ds. sent (orcid env req) = [Response 200 (JObj [(''result'', JArr ds)])] \<longrightarrow>
      length ds \<le> 5)"
proof (cases "get (query req) ''name''")
  case (Inl e)
  then show ?thesis by (simp add: orcid_def escape_def)
next
  case (Inr name)
  show ?thesis
  proof (cases "truthy name")
    case False
    with Inr show ?thesis by (simp add: orcid_def reply_def)
  next
    case True
    show ?thesis
    proof (cases "to_str (js env) name")
      case (Inl e)
      with Inr True show ?thesis
        by (simp add: orcid_def try_catch_def andThen_def liftE_def)
    next
      case n: (Inr n)
      show ?thesis
      proof (cases "upstream env 0 (OrcidSearch n)")
        case (Inl e)
        with Inr True n show ?thesis
          by (simp add: orcid_def try_catch_def andThen_def liftE_def await_def)
      next
        case data: (Inr data)
        let ?results = "or_else (oget data ''result'') (JArr [])"
        show ?thesis
        proof (cases "read_prop ?results ''length'' = JNum (Finite 0)")
          case True
          with Inr \<open>truthy name\<close> n data show ?thesis
            by (simp add: orcid_def try_catch_def andThen_def liftE_def await_def)
        next
          case nonempty: False
          show ?thesis
          proof (cases "call_slice ?results 5")
            case (Inl e)
            with Inr \<open>truthy name\<close> n data nonempty show ?thesis
              by (simp add: orcid_def try_catch_def andThen_def liftE_def await_def)
          next
            case first: (Inr first)
            obtain res tr' where loop:
              "orcid_loop env (elements first) [] [OrcidSearch n] = (res, tr')"
              by (cases "orcid_loop env (elements first) [] [OrcidSearch n]")
            from orcid_loop_bound [OF loop] elements_slice [OF first]
            have b: "length (filter is_profile_call tr') \<le> 5"
              and d: "\<forall>ds. res = Inr ds \<longrightarrow> length ds \<le> 5"
              by auto
            from Inr \<open>truthy name\<close> n data nonempty first loop b d show ?thesis
              by (cases res)
                 (auto simp: orcid_def try_catch_def andThen_def liftE_def await_def)
          qed
        qed
      qed
    qed
  qed
qed

text \<open>A search that finds seven researchers is followed by five profile calls.\<close>

theorem orcid_detail_cap_witness:
  "orcid orcid_world search_request =
     \<lparr>effects = [OrcidSearch ''curie'', OrcidProfile ''a'', OrcidProfile ''b'', OrcidProfile ''c'',
                 OrcidProfile ''d'', OrcidProfile ''e''],
      sent = [Response 200 (JObj [(''result'',
                JArr (map expected_profile [''a'', ''b'', ''c'', ''d'', ''e'']))])],
      escaped = None\<rparr> \<and>
   length (map expected_profile [''a'', ''b'', ''c'', ''d'', ''e'']) \<le> 5"
proof -
  have "orcid orcid_world search_request =
     \<lparr>effects = [OrcidSearch ''curie'', OrcidProfile ''a'', OrcidProfile ''b'', OrcidProfile ''c'',
                 OrcidProfile ''d'', OrcidProfile ''e''],
      sent = [Response 200 (JObj [(''result'',
                JArr (map expected_profile [''a'', ''b'', ''c'', ''d'', ''e'']))])],
      escaped = None\<rparr>"
    by (simp add: orcid_def orcid_step_def profile_record_def orcid_works_def orcid_world_def
          candidate_def expected_profile_def act_defs world_defs)
  with orcid_detail_cap [of orcid_world search_request] show ?thesis by simp
qed

text \<open>
  \<^bold>\<open>C8\<close>. When the request has a query and the id search answers with an empty id list
  (or none), the handler, in either copy, makes the search call only and sends the one
  response 200 \<^verbatim>\<open>{results: []}\<close>.
\<close>

theorem pubmed_empty_ids:
  assumes "get (query req) ''query'' = Inr q" and "truthy q"
    and "upstream env 0 (PubmedSearch q) = Inr data"
    and "pubmed_ids data = JArr []"
  shows "pubmed env req =
           \<lparr>effects = [PubmedSearch q],
            sent = [Response 200 (JObj [(''results'', JArr [])])],
            escaped = None\<rparr> \<and>
         pubmed_part_000 env req =
           \<lparr>effects = [PubmedSearch q],
            sent = [Response 200 (JObj [(''results'', JArr [])])],
            escaped = None\<rparr>"
  using assms
  by (simp add: pubmed_def pubmed_part_000_def try_catch_def andThen_def liftE_def await_def)

theorem pubmed_empty_ids_witness:
  "get (query search_request) ''query'' = Inr (JStr ''asthma'') \<and>
   truthy (JStr ''asthma'') \<and>
   upstream pubmed_void 0 (PubmedSearch (JStr ''asthma''))
     = Inr (JObj [(''esearchresult'', JObj [(''idlist'', JArr [])])]) \<and>
   pubmed_ids (JObj [(''esearchresult'', JObj [(''idlist'', JArr [])])]) = JArr [] \<and>
   pubmed pubmed_void search_request =
     \<lparr>effects = [PubmedSearch (JStr ''asthma'')],
      sent = [Response 200 (JObj [(''results'', JArr [])])],
      escaped = None\<rparr> \<and>
   pubmed_part_000 pubmed_void search_request =
     \<lparr>effects = [PubmedSearch (JStr ''asthma'')],
      sent = [Response 200 (JObj [(''results'', JArr [])])],
      escaped = None\<rparr>"
proof -
  have a: "get (query search_request) ''query'' = Inr (JStr ''asthma'')"
    "truthy (JStr ''asthma'')"
    "upstream pubmed_void 0 (PubmedSearch (JStr ''asthma''))
       = Inr (JObj [(''esearchresult'', JObj [(''idlist'', JArr [])])])"
    "pubmed_ids (JObj [(''esearchresult'', JObj [(''idlist'', JArr [])])]) = JArr []"
    by (simp_all add: pubmed_void_def pubmed_ids_def world_defs)
  from pubmed_empty_ids [OF a] a show ?thesis by simp
qed

text \<open>
  \<^bold>\<open>C9\<close>. When the grants handler answers 200 and the upstream answer holds the records
  \<open>gs\<close>, the response lists one record for each of them in the same order; and for every
  position \<open>i\<close> whose upstream record has a missing or falsy \<^verbatim>\<open>project_num\<close>, the
  record at position \<open>i\<close> of the response has the id \<^verbatim>\<open>grant-\<close> followed by the decimal
  digits of \<open>i\<close>, and the url \<^verbatim>\<open>#\<close>.
\<close>

theorem grants_synthesized_id:
  assumes "sent (grants env req) = [Response 200 b]"
    and "upstream env 0
           (GrantsSearch (or_else (read_prop (query req) ''query'') (JStr ''cancer''))) = Inr data"
    and "oget data ''results'' = JArr gs"
    and "i < length gs"
    and "\<not> truthy (read_prop (gs ! i) ''project_num'')"
  shows "\<exists>rs. b = JObj [(''results'', JArr rs)] \<and> length rs = length gs \<and>
           read_prop (rs ! i) ''id'' = JStr (''grant-'' @ dec i) \<and>
           read_prop (rs ! i) ''url'' = JStr ''#''"
proof -
  let ?q = "or_else (read_prop (query req) ''query'') (JStr ''cancer'')"
  from assms(1) have q: "get (query req) ''query'' = Inr (read_prop (query req) ''query'')"
    by (auto simp: grants_def act_defs get_def error_body_def split: if_splits)
  from assms(1,2) q obtain results where
    res: "grants_results (js env) ?q data = Inr results" and b: "b = JObj [(''results'', results)]"
    by (auto simp: grants_def act_defs split: sum.splits)
  from res assms(3) obtain mapped where
    m: "call_map (JArr gs) (grant_record (js env) ?q) = Inr mapped"
    and r: "results = or_else mapped (JArr [])"
    by (auto simp: grants_results_def bindE_def nullish_def split: sum.splits)
  from call_map_Inr [OF m] obtain ys where ys: "mapped = JArr ys" "length ys = length gs"
    "\<forall>i<length gs. grant_record (js env) ?q (gs ! i) i = Inr (ys ! i)"
    by auto
  from ys(3) assms(4) have "grant_record (js env) ?q (gs ! i) i = Inr (ys ! i)" by blast
  from grant_record_falsy [OF this assms(5)] ys b r show ?thesis
    by (simp add: or_else_def)
qed

text \<open>Of two upstream records the second has no \<^verbatim>\<open>project_num\<close>: its id is \<^verbatim>\<open>grant-1\<close>.\<close>

theorem grants_synthesized_id_witness:
  "sent (grants grants_world search_request) =
     [Response 200 (JObj [(''results'', JArr expected_grants)])] \<and>
   upstream grants_world 0
     (GrantsSearch (or_else (read_prop (query search_request) ''query'') (JStr ''cancer'')))
     = Inr grants_answer \<and>
   oget grants_answer ''results'' = JArr grants_records \<and>
   1 < length grants_records \<and>
   \<not> truthy (read_prop (grants_records ! 1) ''project_num'') \<and>
   read_prop (expected_grants ! 1) ''id'' = JStr ''grant-1'' \<and>
   read_prop (expected_grants ! 1) ''url'' = JStr ''#''"
proof -
  have a: "sent (grants grants_world search_request) =
             [Response 200 (JObj [(''results'', JArr expected_grants)])]"
    "upstream grants_world 0
       (GrantsSearch (or_else (read_prop (query search_request) ''query'') (JStr ''cancer'')))
       = Inr grants_answer"
    "oget grants_answer ''results'' = JArr grants_records"
    "1 < length grants_records"
    "\<not> truthy (read_prop (grants_records ! 1) ''project_num'')"
    by (simp_all add: grants_def grants_results_def grant_record_def grants_world_def
          grants_answer_def grants_records_def expected_grants_def act_defs world_defs)
  from grants_synthesized_id [OF a] a show ?thesis
    by (auto simp: dec.simps)
qed

text \<open>
  \<^bold>\<open>C10\<close>, as amended. A registration of a patient is not rejected for its age: when
  the email lookup finds no user, the gender is valid, and the digest function and the
  store return, the handler answers 201 for every age for which \<^verbatim>\<open>Number(age)\<close> yields a
  number \<open>n\<close>, and the age handed to the store is \<open>n\<close> unless \<open>n\<close> is zero or \<open>NaN\<close>,
  in which case it is \<^verbatim>\<open>null\<close>; an infinite \<open>n\<close> is handed on as it is. In particular
  an absent age, the age 0 and an age string that does not read as a number are accepted
  and stored as \<^verbatim>\<open>null\<close>. Conversely, whenever the registration of a patient is
  answered 201, the age handed to the store is the one just described.
\<close>

theorem register_age_coercion:
  "(\<forall>email existing hashed n user.
      get (body req) ''email'' = Inr email \<and> findUnique env email = Inr existing \<and>
      \<not> truthy existing \<and>
      read_prop (body req) ''userType'' = JStr ''PATIENT'' \<and>
      read_prop (body req) ''gender'' \<in> set validGenders \<and>
      bcrypt_hash env (read_prop (body req) ''password'') = Inr hashed \<and>
      Number (js env) (read_prop (body req) ''age'') = Inr n \<and>
      create env (register_data (body req) hashed
                    (if n = NaN \<or> n = Finite 0 then JNull else JNum n)) = Inr user
      \<longrightarrow>
      register env req =
        \<lparr>effects = [register_data (body req) hashed
                      (if n = NaN \<or> n = Finite 0 then JNull else JNum n)],
         sent = [Response 201
                   (JObj [(''message'', JStr ''Registered successfully''), (''user'', user)])],
         escaped = None\<rparr> \<and>
      read_prop (register_data (body req) hashed
                   (if n = NaN \<or> n = Finite 0 then JNull else JNum n)) ''age''
        = (if n = NaN \<or> n = Finite 0 then JNull else JNum n)) \<and>
   (\<forall>email existing hashed user.
      get (body req) ''email'' = Inr email \<and> findUnique env email = Inr existing \<and>
      \<not> truthy existing \<and>
      read_prop (body req) ''userType'' = JStr ''PATIENT'' \<and>
      read_prop (body req) ''gender'' \<in> set validGenders \<and>
      bcrypt_hash env (read_prop (body req) ''password'') = Inr hashed \<and>
      (read_prop (body req) ''age'' = JUndefined \<or>
       read_prop (body req) ''age'' = JNum (Finite 0) \<or>
       (\<exists>s. read_prop (body req) ''age'' = JStr s \<and> StringToNumber (js env) s = NaN)) \<and>
      create env (register_data (body req) hashed JNull) = Inr user
      \<longrightarrow>
      register env req =
        \<lparr>effects = [register_data (body req) hashed JNull],
         sent = [Response 201
                   (JObj [(''message'', JStr ''Registered successfully''), (''user'', user)])],
         escaped = None\<rparr> \<and>
      read_prop (register_data (body req) hashed JNull) ''age'' = JNull) \<and>
   (\<forall>b. sent (register env req) = [Response 201 b] \<and>
      read_prop (body req) ''userType'' = JStr ''PATIENT'' \<longrightarrow>
      (\<exists>data n. effects (register env req) = [data] \<and>
         Number (js env) (read_prop (body req) ''age'') = Inr n \<and>
         read_prop data ''age'' = (if n = NaN \<or> n = Finite 0 then JNull else JNum n) \<and>
         (read_prop (body req) ''age'' = JUndefined \<or>
          read_prop (body req) ''age'' = JNum (Finite 0) \<or>
          (\<exists>s. read_prop (body req) ''age'' = JStr s \<and> StringToNumber (js env) s = NaN)
          \<longrightarrow> read_prop data ''age'' = JNull)))"
proof (intro conjI allI impI)
  fix email existing hashed n user
  assume a: "get (body req) ''email'' = Inr email \<and> findUnique env email = Inr existing \<and>
      \<not> truthy existing \<and>
      read_prop (body req) ''userType'' = JStr ''PATIENT'' \<and>
      read_prop (body req) ''gender'' \<in> set validGenders \<and>
      bcrypt_hash env (read_prop (body req) ''password'') = Inr hashed \<and>
      Number (js env) (read_prop (body req) ''age'') = Inr n \<and>
      create env (register_data (body req) hashed
                    (if n = NaN \<or> n = Finite 0 then JNull else JNum n)) = Inr user"
  have o: "or_else (JNum n) JNull = (if n = NaN \<or> n = Finite 0 then JNull else JNum n)"
    by (simp add: or_else_def)
  from a show "register env req =
        \<lparr>effects = [register_data (body req) hashed
                      (if n = NaN \<or> n = Finite 0 then JNull else JNum n)],
         sent = [Response 201
                   (JObj [(''message'', JStr ''Registered successfully''), (''user'', user)])],
         escaped = None\<rparr>"
    using register_patient_accepted [of req email env existing hashed n user]
    by (simp only: o) blast
  show "read_prop (register_data (body req) hashed
                   (if n = NaN \<or> n = Finite 0 then JNull else JNum n)) ''age''
        = (if n = NaN \<or> n = Finite 0 then JNull else JNum n)"
    by (simp add: register_data_def)
next
  fix email existing hashed user
  assume a: "get (body req) ''email'' = Inr email \<and> findUnique env email = Inr existing \<and>
      \<not> truthy existing \<and>
      read_prop (body req) ''userType'' = JStr ''PATIENT'' \<and>
      read_prop (body req) ''gender'' \<in> set validGenders \<and>
      bcrypt_hash env (read_prop (body req) ''password'') = Inr hashed \<and>
      (read_prop (body req) ''age'' = JUndefined \<or>
       read_prop (body req) ''age'' = JNum (Finite 0) \<or>
       (\<exists>s. read_prop (body req) ''age'' = JStr s \<and> StringToNumber (js env) s = NaN)) \<and>
      create env (register_data (body req) hashed JNull) = Inr user"
  then obtain n where n: "Number (js env) (read_prop (body req) ''age'') = Inr n"
    and z: "or_else (JNum n) JNull = JNull"
    by (auto simp: or_else_def)
  from a n z show "register env req =
        \<lparr>effects = [register_data (body req) hashed JNull],
         sent = [Response 201
                   (JObj [(''message'', JStr ''Registered successfully''), (''user'', user)])],
         escaped = None\<rparr>"
    using register_patient_accepted [of req email env existing hashed n user]
    by simp
  show "read_prop (register_data (body req) hashed JNull) ''age'' = JNull"
    by (simp add: register_data_def)
next
  fix b
  assume a: "sent (register env req) = [Response 201 b] \<and>
      read_prop (body req) ''userType'' = JStr ''PATIENT''"
  from register_created [of env req b] a obtain hashed age where
    e: "effects (register env req) = [register_data (body req) hashed age]"
    and c: "coerce_age (js env) (read_prop (body req) ''userType'') (read_prop (body req) ''age'')
              = Inr age"
    by blast
  from c a obtain n where n: "Number (js env) (read_prop (body req) ''age'') = Inr n"
    and age: "age = or_else (JNum n) JNull"
    by (auto simp: coerce_age_def bindE_def split: sum.splits)
  have "read_prop (register_data (body req) hashed age) ''age'' = age"
    by (simp add: register_data_def)
  with e n age show "\<exists>data n. effects (register env req) = [data] \<and>
         Number (js env) (read_prop (body req) ''age'') = Inr n \<and>
         read_prop data ''age'' = (if n = NaN \<or> n = Finite 0 then JNull else JNum n) \<and>
         (read_prop (body req) ''age'' = JUndefined \<or>
          read_prop (body req) ''age'' = JNum (Finite 0) \<or>
          (\<exists>s. read_prop (body req) ''age'' = JStr s \<and> StringToNumber (js env) s = NaN)
          \<longrightarrow> read_prop data ''age'' = JNull)"
    by (auto simp: or_else_def)
qed

text \<open>
  The age 34 is stored as 34; the age 0, the age string \<^verbatim>\<open>unknown\<close> and an absent age are
  each answered 201 and stored as \<^verbatim>\<open>null\<close>.
\<close>

theorem register_age_coercion_witness:
  "register offline (patient_request (JNum (Finite 34))) =
     \<lparr>effects = [register_data (body (patient_request (JNum (Finite 34))))
                   (JStr ''$2a$10$digest'') (JNum (Finite 34))],
      sent = [Response 201 (JObj [(''message'', JStr ''Registered successfully''),
                (''user'', register_data (body (patient_request (JNum (Finite 34))))
                             (JStr ''$2a$10$digest'') (JNum (Finite 34)))])],
      escaped = None\<rparr> \<and>
   read_prop (register_data (body (patient_request (JNum (Finite 34))))
                (JStr ''$2a$10$digest'') (JNum (Finite 34))) ''age'' = JNum (Finite 34) \<and>
   read_prop (body (patient_request (JNum (Finite 0)))) ''age'' = JNum (Finite 0) \<and>
   register offline (patient_request (JNum (Finite 0))) =
     \<lparr>effects = [register_data (body (patient_request (JNum (Finite 0))))
                   (JStr ''$2a$10$digest'') JNull],
      sent = [Response 201 (JObj [(''message'', JStr ''Registered successfully''),
                (''user'', register_data (body (patient_request (JNum (Finite 0))))
                             (JStr ''$2a$10$digest'') JNull)])],
      escaped = None\<rparr> \<and>
   read_prop (body (patient_request (JStr ''unknown''))) ''age'' = JStr ''unknown'' \<and>
   StringToNumber (js offline) ''unknown'' = NaN \<and>
   register offline (patient_request (JStr ''unknown'')) =
     \<lparr>effects = [register_data (body (patient_request (JStr ''unknown'')))
                   (JStr ''$2a$10$digest'') JNull],
      sent = [Response 201 (JObj [(''message'', JStr ''Registered successfully''),
                (''user'', register_data (body (patient_request (JStr ''unknown'')))
                             (JStr ''$2a$10$digest'') JNull)])],
      escaped = None\<rparr> \<and>
   read_prop (body ageless_request) ''age'' = JUndefined \<and>
   register offline ageless_request =
     \<lparr>effects = [register_data (body ageless_request) (JStr ''$2a$10$digest'') JNull],
      sent = [Response 201 (JObj [(''message'', JStr ''Registered successfully''),
                (''user'', register_data (body ageless_request)
                             (JStr ''$2a$10$digest'') JNull)])],
      escaped = None\<rparr> \<and>
   read_prop (register_data (body ageless_request) (JStr ''$2a$10$digest'') JNull) ''age''
     = JNull"
proof -
  have common: "\<And>age. get (body (patient_request age)) ''email'' = Inr (JStr ''ada@example.org'')"
    "findUnique offline (JStr ''ada@example.org'') = Inr JNull"
    "\<not> truthy JNull"
    "\<And>age. read_prop (body (patient_request age)) ''userType'' = JStr ''PATIENT''"
    "\<And>age. read_prop (body (patient_request age)) ''gender'' \<in> set validGenders"
    "\<And>p. bcrypt_hash offline p = Inr (JStr ''$2a$10$digest'')"
    "\<And>data. create offline data = Inr data"
    "get (body ageless_request) ''email'' = Inr (JStr ''ada@example.org'')"
    "read_prop (body ageless_request) ''userType'' = JStr ''PATIENT''"
    "read_prop (body ageless_request) ''gender'' \<in> set validGenders"
    by (simp_all add: patient_request_def ageless_request_def offline_def validGenders_def
          get_def nullish_def)
  have ages: "Number (js offline) (read_prop (body (patient_request (JNum (Finite 34)))) ''age'')
                = Inr (Finite 34)"
    "read_prop (body (patient_request (JNum (Finite 0)))) ''age'' = JNum (Finite 0)"
    "read_prop (body (patient_request (JStr ''unknown''))) ''age'' = JStr ''unknown''"
    "StringToNumber (js offline) ''unknown'' = NaN"
    "read_prop (body ageless_request) ''age'' = JUndefined"
    by (simp_all add: patient_request_def ageless_request_def offline_def sample_runtime_def)
  note general = register_age_coercion [of "patient_request (JNum (Finite 34))" offline,
      THEN conjunct1, rule_format,
      of "JStr ''ada@example.org''" JNull "JStr ''$2a$10$digest''" "Finite 34"]
  note zero = register_age_coercion [of "patient_request (JNum (Finite 0))" offline,
      THEN conjunct2, THEN conjunct1, rule_format,
      of "JStr ''ada@example.org''" JNull "JStr ''$2a$10$digest''"]
  note unknown = register_age_coercion [of "patient_request (JStr ''unknown'')" offline,
      THEN conjunct2, THEN conjunct1, rule_format,
      of "JStr ''ada@example.org''" JNull "JStr ''$2a$10$digest''"]
  note absent = register_age_coercion [of ageless_request offline,
      THEN conjunct2, THEN conjunct1, rule_format,
      of "JStr ''ada@example.org''" JNull "JStr ''$2a$10$digest''"]
  have a34: "register offline (patient_request (JNum (Finite 34))) =
     \<lparr>effects = [register_data (body (patient_request (JNum (Finite 34))))
                   (JStr ''$2a$10$digest'') (JNum (Finite 34))],
      sent = [Response 201 (JObj [(''message'', JStr ''Registered successfully''),
                (''user'', register_data (body (patient_request (JNum (Finite 34))))
                             (JStr ''$2a$10$digest'') (JNum (Finite 34)))])],
      escaped = None\<rparr>"
    "read_prop (register_data (body (patient_request (JNum (Finite 34))))
                (JStr ''$2a$10$digest'') (JNum (Finite 34))) ''age'' = JNum (Finite 34)"
    using general common ages by simp_all
  have a0: "register offline (patient_request (JNum (Finite 0))) =
     \<lparr>effects = [register_data (body (patient_request (JNum (Finite 0))))
                   (JStr ''$2a$10$digest'') JNull],
      sent = [Response 201 (JObj [(''message'', JStr ''Registered successfully''),
                (''user'', register_data (body (patient_request (JNum (Finite 0))))
                             (JStr ''$2a$10$digest'') JNull)])],
      escaped = None\<rparr>"
    using zero common ages by simp
  have au: "register offline (patient_request (JStr ''unknown'')) =
     \<lparr>effects = [register_data (body (patient_request (JStr ''unknown'')))
                   (JStr ''$2a$10$digest'') JNull],
      sent = [Response 201 (JObj [(''message'', JStr ''Registered successfully''),
                (''user'', register_data (body (patient_request (JStr ''unknown'')))
                             (JStr ''$2a$10$digest'') JNull)])],
      escaped = None\<rparr>"
    using unknown common ages by simp
  have aa: "register offline ageless_request =
     \<lparr>effects = [register_data (body ageless_request) (JStr ''$2a$10$digest'') JNull],
      sent = [Response 201 (JObj [(''message'', JStr ''Registered successfully''),
                (''user'', register_data (body ageless_request)
                             (JStr ''$2a$10$digest'') JNull)])],
      escaped = None\<rparr>"
    "read_prop (register_data (body ageless_request) (JStr ''$2a$10$digest'') JNull) ''age''
       = JNull"
    using absent common ages by simp_all
  from a34 a0 au aa ages show ?thesis by simp
qed

text \<open>
  The claim as first stated fails for an infinite age (the JSON number \<^verbatim>\<open>1e999\<close> parses
  to \<^verbatim>\<open>Infinity\<close>): \<^verbatim>\<open>Number(age)\<close> is not a finite number, yet the age handed to the
  store is \<^verbatim>\<open>Infinity\<close>, not \<^verbatim>\<open>null\<close>.
\<close>

theorem register_infinite_age:
  "Number (js offline) (read_prop (body (patient_request (JNum PosInfinity))) ''age'')
     = Inr PosInfinity \<and>
   sent (register offline (patient_request (JNum PosInfinity))) =
     [Response 201 (JObj [(''message'', JStr ''Registered successfully''),
        (''user'', register_data (body (patient_request (JNum PosInfinity)))
                     (JStr ''$2a$10$digest'') (JNum PosInfinity))])] \<and>
   effects (register offline (patient_request (JNum PosInfinity))) =
     [register_data (body (patient_request (JNum PosInfinity)))
        (JStr ''$2a$10$digest'') (JNum PosInfinity)] \<and>
   read_prop (register_data (body (patient_request (JNum PosInfinity)))
                (JStr ''$2a$10$digest'') (JNum PosInfinity)) ''age'' = JNum PosInfinity \<and>
   JNum PosInfinity \<noteq> JNull"
  by (simp add: register_def patient_request_def validUserTypes_def validGenders_def
        coerce_age_def register_data_def act_defs world_defs)

section \<open>Further properties\<close>

text \<open>
  The summary route answers 400 \<^verbatim>\<open>Symptoms required\<close>, in both copies, when the
  symptoms are absent, \<^verbatim>\<open>null\<close> or a string of white space only. In \<^verbatim>\<open>src/index.js\<close>
  it answers 500 \<^verbatim>\<open>OpenAI API key not set\<close> when the symptoms are not blank and the key
  is not configured, and 500 \<^verbatim>\<open>OpenAI did not return a summary\<close> when the completion call
  returns and its first choice has no content.
\<close>

theorem ai_summary_validation:
  "(get (body req) ''symptoms'' = Inr JUndefined \<or> get (body req) ''symptoms'' = Inr JNull \<or>
    (\<exists>s. get (body req) ''symptoms'' = Inr (JStr s) \<and> (\<forall>c\<in>set s. js_whitespace c)) \<longrightarrow>
      ai_summary env req = reply (Response 400 (error_body ''Symptoms required'')) \<and>
      ai_summary_part_000 env req = reply (Response 400 (error_body ''Symptoms required''))) \<and>
   (\<forall>s. get (body req) ''symptoms'' = Inr (JStr s) \<and> trim s \<noteq> [] \<and>
      \<not> truthy (OPENAI_API_KEY env) \<longrightarrow>
      ai_summary env req = reply (Response 500 (error_body ''OpenAI API key not set''))) \<and>
   (\<forall>s response. get (body req) ''symptoms'' = Inr (JStr s) \<and> trim s \<noteq> [] \<and>
      truthy (OPENAI_API_KEY env) \<and>
      upstream env 0 (ChatSummary (summary_prompt s)) = Inr response \<and>
      \<not> truthy (completion_content response) \<longrightarrow>
      sent (ai_summary env req) =
        [Response 500 (error_body ''OpenAI did not return a summary'')])"
proof (intro conjI allI impI)
  assume "get (body req) ''symptoms'' = Inr JUndefined \<or> get (body req) ''symptoms'' = Inr JNull \<or>
    (\<exists>s. get (body req) ''symptoms'' = Inr (JStr s) \<and> (\<forall>c\<in>set s. js_whitespace c))"
  then have "bindE (get (body req) ''symptoms'') trimmed_symptoms = Inr JUndefined \<or>
             bindE (get (body req) ''symptoms'') trimmed_symptoms = Inr (JStr [])"
    by (auto simp: bindE_def trimmed_symptoms_def nullish_def trim_whitespace)
  then show "ai_summary env req = reply (Response 400 (error_body ''Symptoms required''))"
    and "ai_summary_part_000 env req = reply (Response 400 (error_body ''Symptoms required''))"
    by (auto simp: ai_summary_def ai_summary_part_000_def)
next
  fix s
  assume "get (body req) ''symptoms'' = Inr (JStr s) \<and> trim s \<noteq> [] \<and>
      \<not> truthy (OPENAI_API_KEY env)"
  then show "ai_summary env req = reply (Response 500 (error_body ''OpenAI API key not set''))"
    by (simp add: ai_summary_def bindE_def trimmed_symptoms_def nullish_def)
next
  fix s response
  assume a: "get (body req) ''symptoms'' = Inr (JStr s) \<and> trim s \<noteq> [] \<and>
      truthy (OPENAI_API_KEY env) \<and>
      upstream env 0 (ChatSummary (summary_prompt s)) = Inr response \<and>
      \<not> truthy (completion_content response)"
  then have "read_prop (body req) ''symptoms'' = JStr s"
    by (auto simp: get_def split: if_splits)
  with a show "sent (ai_summary env req) =
        [Response 500 (error_body ''OpenAI did not return a summary'')]"
    by (simp add: ai_summary_def bindE_def trimmed_symptoms_def nullish_def act_defs or_else_def)
qed

theorem ai_summary_validation_witness:
  "get (body blank_request) ''symptoms'' = Inr (JStr ''   '') \<and>
   list_all js_whitespace ''   '' \<and>
   ai_summary offline blank_request = reply (Response 400 (error_body ''Symptoms required'')) \<and>
   get (body symptoms_request) ''symptoms'' = Inr (JStr ''fever'') \<and>
   trim ''fever'' = ''fever'' \<and>
   \<not> truthy (OPENAI_API_KEY keyless) \<and>
   ai_summary keyless symptoms_request =
     reply (Response 500 (error_body ''OpenAI API key not set'')) \<and>
   truthy (OPENAI_API_KEY empty_completion) \<and>
   upstream empty_completion 0 (ChatSummary (summary_prompt ''fever''))
     = Inr (JObj [(''choices'', JArr [])]) \<and>
   \<not> truthy (completion_content (JObj [(''choices'', JArr [])])) \<and>
   sent (ai_summary empty_completion symptoms_request) =
     [Response 500 (error_body ''OpenAI did not return a summary'')]"
proof -
  have a: "get (body blank_request) ''symptoms'' = Inr (JStr ''   '')"
    "list_all js_whitespace ''   ''"
    "get (body symptoms_request) ''symptoms'' = Inr (JStr ''fever'')"
    "trim ''fever'' = ''fever''"
    "\<not> truthy (OPENAI_API_KEY keyless)"
    "truthy (OPENAI_API_KEY empty_completion)"
    "upstream empty_completion 0 (ChatSummary (summary_prompt ''fever''))
       = Inr (JObj [(''choices'', JArr [])])"
    "\<not> truthy (completion_content (JObj [(''choices'', JArr [])]))"
    by (simp_all add: blank_request_def symptoms_request_def keyless_def empty_completion_def
          completion_content_def world_defs)
  from a(2) have w: "\<forall>c\<in>set ''   ''. js_whitespace c" by (simp only: list_all_iff)
  from a w ai_summary_validation [of blank_request offline]
    ai_summary_validation [of symptoms_request keyless]
    ai_summary_validation [of symptoms_request empty_completion]
  show ?thesis by (auto simp del: set_simps)
qed

text \<open>
  A registration whose email the store already holds is answered with 400
  \<^verbatim>\<open>Email already registered\<close>, whatever its other fields, and nothing is created.
\<close>

theorem register_conflict:
  assumes "get (body req) ''email'' = Inr email"
    and "findUnique env email = Inr existing"
    and "truthy existing"
  shows "register env req =
           \<lparr>effects = [],
            sent = [Response 400 (error_body ''Email already registered'')],
            escaped = None\<rparr>"
  using assms by (simp add: register_def act_defs)

theorem register_conflict_witness:
  "get (body (patient_request (JNum (Finite 34)))) ''email'' = Inr (JStr ''ada@example.org'') \<and>
   findUnique one_user (JStr ''ada@example.org'') = Inr ada \<and>
   truthy ada \<and>
   register one_user (patient_request (JNum (Finite 34))) =
     \<lparr>effects = [],
      sent = [Response 400 (error_body ''Email already registered'')],
      escaped = None\<rparr>"
proof -
  have a: "get (body (patient_request (JNum (Finite 34)))) ''email'' = Inr (JStr ''ada@example.org'')"
    "findUnique one_user (JStr ''ada@example.org'') = Inr ada"
    "truthy ada"
    by (simp_all add: patient_request_def one_user_def offline_def ada_def get_def nullish_def)
  from register_conflict [OF a] a show ?thesis by simp
qed

end
